theory Spec2Isabelle
  imports Main
begin

section \<open>Notion / GitHub reconciliation engine\<close>

text \<open>
  A shallow embedding of the sync script (\<^verbatim>\<open>src/unnamed/part_000\<close>): the status
  tables, the direction decision, the two API clients with their dry-run gates, and the
  engine's loops over projects and actions.

  The two SDK clients and the JavaScript built-ins (\<^verbatim>\<open>Date\<close>, \<^verbatim>\<open>Object.prototype\<close>) are
  outside the script. They are parameters of the model: a \<open>runtime\<close> gives the
  built-ins, a \<open>world\<close> gives the answer of each store to each request.
\<close>

subsection \<open>JavaScript values\<close>

text \<open>
  A time value (\<^verbatim>\<open>new Date(s).getTime()\<close>) is an integral number of milliseconds or
  \<^verbatim>\<open>NaN\<close>; \<open>None\<close> is \<^verbatim>\<open>NaN\<close>. An optional string property (\<^verbatim>\<open>undefined\<close>,
  \<^verbatim>\<open>null\<close> or a string) is a \<open>string option\<close>.
\<close>

type_synonym time_value = "int option"

datatype error = RangeError | ApiError string

text \<open>
  \<open>Object_prototype\<close> lists the names of the members that every plain object inherits
  (\<^verbatim>\<open>constructor\<close>, \<^verbatim>\<open>toString\<close>, \<^verbatim>\<open>__proto__\<close>, ...). Their values are functions or
  objects: truthy, and no strings.
\<close>

record runtime =
  Date_getTime :: "string \<Rightarrow> time_value"
  Date_toISOString :: "int \<Rightarrow> string"
  Object_prototype :: "string list"

text \<open>\<^verbatim>\<open>a > b\<close> on numbers: false as soon as one side is \<^verbatim>\<open>NaN\<close>.\<close>

definition js_gt :: "time_value \<Rightarrow> time_value \<Rightarrow> bool" where
  "js_gt a b = (case a of None \<Rightarrow> False
                | Some x \<Rightarrow> (case b of None \<Rightarrow> False | Some y \<Rightarrow> x > y))"

text \<open>Truthiness of an optional string: \<^verbatim>\<open>undefined\<close>, \<^verbatim>\<open>null\<close> and \<^verbatim>\<open>''\<close> are falsy.\<close>

definition truthy :: "string option \<Rightarrow> bool" where
  "truthy v = (case v of None \<Rightarrow> False | Some s \<Rightarrow> s \<noteq> [])"

text \<open>\<^verbatim>\<open>new Date(t).toISOString()\<close> throws a \<^verbatim>\<open>RangeError\<close> on an invalid date.\<close>

definition toISOString :: "runtime \<Rightarrow> time_value \<Rightarrow> error + string" where
  "toISOString rt t = (case t of None \<Rightarrow> Inl RangeError
                       | Some ms \<Rightarrow> Inr (Date_toISOString rt ms))"

subsection \<open>Type definitions (lines 67-114)\<close>

text \<open>
  The four interfaces share field names (\<^verbatim>\<open>id\<close>, \<^verbatim>\<open>title\<close>, \<^verbatim>\<open>updatedAt\<close>, ...); a
  record's fields are constants of the theory, so each record prefixes its own:
  \<open>p_\<close> for \<^verbatim>\<open>NotionProject\<close>, \<open>a_\<close> for \<^verbatim>\<open>NotionAction\<close>, \<open>gp_\<close> for
  \<^verbatim>\<open>GitHubProject\<close>, \<open>gi_\<close> for \<^verbatim>\<open>GitHubIssue\<close>. A field declared with \<^verbatim>\<open>?\<close> is an
  option. \<^verbatim>\<open>projectItems\<close> of an issue is never read and is left out.
\<close>

datatype issue_state = OPEN | CLOSED

record NotionProject =
  p_id :: string
  p_name :: string
  p_status :: string
  p_description :: "string option"
  p_githubProjectId :: "string option"
  p_githubProjectUrl :: "string option"
  p_lastSyncAt :: "string option"
  p_updatedAt :: string

record NotionAction =
  a_id :: string
  a_title :: string
  a_status :: string
  a_projectId :: "string option"
  a_githubIssueId :: "string option"
  a_githubIssueNumber :: "int option"
  a_githubIssueUrl :: "string option"
  a_description :: "string option"
  a_lastSyncAt :: "string option"
  a_updatedAt :: string

record GitHubProject =
  gp_id :: string
  gp_number :: int
  gp_title :: string
  gp_url :: string
  gp_shortDescription :: "string option"
  gp_updatedAt :: string

record GitHubIssue =
  gi_id :: string
  gi_number :: int
  gi_title :: string
  gi_body :: "string option"
  gi_state :: issue_state
  gi_url :: string
  gi_updatedAt :: string

datatype sync_direction = NotionToGithub | GithubToNotion | Conflict

record SyncState =
  direction :: sync_direction
  reason :: string

subsection \<open>Status mapping (lines 120-132)\<close>

definition NOTION_TO_GITHUB_STATUS :: "(string \<times> issue_state) list" where
  "NOTION_TO_GITHUB_STATUS =
     [(''Not Started'', OPEN),
      (''In Progress'', OPEN),
      (''Blocked'', OPEN),
      (''On Hold'', OPEN),
      (''Completed'', CLOSED),
      (''Cancelled'', CLOSED)]"

definition GITHUB_TO_NOTION_STATUS :: "(issue_state \<times> string) list" where
  "GITHUB_TO_NOTION_STATUS = [(OPEN, ''In Progress''), (CLOSED, ''Completed'')]"

text \<open>
  \<^verbatim>\<open>NOTION_TO_GITHUB_STATUS[action.status] || 'OPEN'\<close> (lines 693 and 719). The table is a
  plain object: a status that is no key of its own but names a member of
  \<^verbatim>\<open>Object.prototype\<close> reads that member, which is truthy, so that \<^verbatim>\<open>'OPEN'\<close> is not
  taken. The value is then neither \<^verbatim>\<open>'OPEN'\<close> nor \<^verbatim>\<open>'CLOSED'\<close>.
\<close>

datatype board_state = Known issue_state | InheritedMember string

definition notionToGithubState :: "runtime \<Rightarrow> string \<Rightarrow> board_state" where
  "notionToGithubState rt status =
     (case map_of NOTION_TO_GITHUB_STATUS status of
        Some st \<Rightarrow> Known st
      | None \<Rightarrow>
          if status \<in> set (Object_prototype rt) then InheritedMember status
          else Known OPEN)"

text \<open>\<^verbatim>\<open>GITHUB_TO_NOTION_STATUS[githubIssue.state] || action.status\<close> (line 708).\<close>

definition githubToNotionStatus :: "issue_state \<Rightarrow> string \<Rightarrow> string" where
  "githubToNotionStatus st actionStatus =
     (case map_of GITHUB_TO_NOTION_STATUS st of
        None \<Rightarrow> actionStatus
      | Some v \<Rightarrow> if v = [] then actionStatus else v)"

text \<open>
  The round trip of a Notion status through GitHub and back: the expression of line 708
  on the value of the expression of line 693. On an inherited member the second lookup
  has for key the text of a function or \<^verbatim>\<open>[object Object]\<close>, which neither is a key of
  \<^verbatim>\<open>GITHUB_TO_NOTION_STATUS\<close> nor names a member of \<^verbatim>\<open>Object.prototype\<close>: it is
  \<^verbatim>\<open>undefined\<close>, and the status itself is taken.
\<close>

definition statusRoundTrip :: "runtime \<Rightarrow> string \<Rightarrow> string" where
  "statusRoundTrip rt s =
     (case notionToGithubState rt s of
        Known st \<Rightarrow> githubToNotionStatus st s
      | InheritedMember member \<Rightarrow> s)"

subsection \<open>The direction decision (lines 542-579)\<close>

text \<open>\<^verbatim>\<open>lastSyncAt ? new Date(lastSyncAt).getTime() : 0\<close>\<close>

definition lastSyncTime :: "runtime \<Rightarrow> string option \<Rightarrow> time_value" where
  "lastSyncTime rt lastSyncAt =
     (case lastSyncAt of
        None \<Rightarrow> Some 0
      | Some s \<Rightarrow> if s = [] then Some 0 else Date_getTime rt s)"

definition determineSyncDirection ::
  "runtime \<Rightarrow> string \<Rightarrow> string \<Rightarrow> string option \<Rightarrow> error + SyncState" where
  "determineSyncDirection rt notionUpdatedAt githubUpdatedAt lastSyncAt =
     (let notionTime = Date_getTime rt notionUpdatedAt;
          githubTime = Date_getTime rt githubUpdatedAt;
          lastSync = lastSyncTime rt lastSyncAt;
          notionChangedSinceSync = js_gt notionTime lastSync;
          githubChangedSinceSync = js_gt githubTime lastSync
      in
        if notionChangedSinceSync \<and> githubChangedSinceSync then
          (case toISOString rt notionTime of
             Inl e \<Rightarrow> Inl e
           | Inr n \<Rightarrow>
               (case toISOString rt githubTime of
                  Inl e \<Rightarrow> Inl e
                | Inr g \<Rightarrow>
                    Inr \<lparr>direction = Conflict,
                         reason = ''Both updated since last sync (Notion: '' @ n
                                  @ '', GitHub: '' @ g @ '')''\<rparr>))
        else if notionChangedSinceSync then
          (case toISOString rt notionTime of
             Inl e \<Rightarrow> Inl e
           | Inr n \<Rightarrow> Inr \<lparr>direction = NotionToGithub, reason = ''Notion updated at '' @ n\<rparr>)
        else if githubChangedSinceSync then
          (case toISOString rt githubTime of
             Inl e \<Rightarrow> Inl e
           | Inr g \<Rightarrow> Inr \<lparr>direction = GithubToNotion, reason = ''GitHub updated at '' @ g\<rparr>)
        else
          Inr \<lparr>direction = NotionToGithub,
               reason = ''No changes detected, defaulting to Notion''\<rparr>)"

text \<open>The direction of a decision, when the call returned one.\<close>

definition directionOf :: "error + SyncState \<Rightarrow> sync_direction option" where
  "directionOf r = (case r of Inl e \<Rightarrow> None | Inr st \<Rightarrow> Some (direction st))"

text \<open>
  The decision table in the words of the design (section 4.3), over the three time values:
  \<open>leftChanged = left.updatedAt > lastSyncAt\<close>, \<open>rightChanged = right.updatedAt > lastSyncAt\<close>;
  both: conflict; only left: left to right; only right: right to left; neither: left to right.
\<close>

definition spec_direction :: "time_value \<Rightarrow> time_value \<Rightarrow> time_value \<Rightarrow> sync_direction" where
  "spec_direction leftUpdatedAt rightUpdatedAt lastSyncAt =
     (let leftChanged = js_gt leftUpdatedAt lastSyncAt;
          rightChanged = js_gt rightUpdatedAt lastSyncAt
      in if leftChanged \<and> rightChanged then Conflict
         else if leftChanged \<and> \<not> rightChanged then NotionToGithub
         else if rightChanged \<and> \<not> leftChanged then GithubToNotion
         else NotionToGithub)"

text \<open>Swapping the two sides of a direction.\<close>

fun swapDirection :: "sync_direction \<Rightarrow> sync_direction" where
  "swapDirection NotionToGithub = GithubToNotion"
| "swapDirection GithubToNotion = NotionToGithub"
| "swapDirection Conflict = Conflict"

text \<open>
  A runtime for concrete evaluations: \<^verbatim>\<open>Date\<close> on three ISO-8601 instants and their
  time values. Every other string is taken as unparseable (\<^verbatim>\<open>NaN\<close>); the evaluations
  below parse the three instants and strings that are no dates, and print the three
  time values only. The members of \<^verbatim>\<open>Object.prototype\<close> are those of ECMAScript with
  its annex B.
\<close>

definition isoInstants :: "(string \<times> int) list" where
  "isoInstants =
     [(''2024-01-01T00:00:00.000Z'', 1704067200000),
      (''2024-01-02T00:00:00.000Z'', 1704153600000),
      (''2024-01-03T00:00:00.000Z'', 1704240000000)]"

definition sampleRuntime :: runtime where
  "sampleRuntime =
     \<lparr>Date_getTime = map_of isoInstants,
      Date_toISOString = (\<lambda>ms. case map_of (map (\<lambda>(s, t). (t, s)) isoInstants) ms of
                                   None \<Rightarrow> ''1970-01-01T00:00:00.000Z'' | Some s \<Rightarrow> s),
      Object_prototype =
        [''constructor'', ''hasOwnProperty'', ''isPrototypeOf'', ''propertyIsEnumerable'',
         ''toLocaleString'', ''toString'', ''valueOf'', ''__proto__'', ''__defineGetter__'',
         ''__defineSetter__'', ''__lookupGetter__'', ''__lookupSetter__'']\<rparr>"

subsection \<open>Requests, answers and the console\<close>

text \<open>
  What \<^verbatim>\<open>pages.update\<close> is sent: the page's properties, in the order the script sets them.
\<close>

datatype prop_value =
    RichText string
  | UrlValue string
  | SelectName string
  | NumberValue int
  | DateStart string

type_synonym properties = "(string \<times> prop_value) list"

text \<open>
  The \<open>updates\<close> arguments: the fields of \<^verbatim>\<open>Partial<NotionProject>\<close> and
  \<^verbatim>\<open>Partial<NotionAction>\<close> that the callers set and the clients read, and the
  \<^verbatim>\<open>{ title?, body?, state? }\<close> of \<^verbatim>\<open>updateIssue\<close>.
\<close>

record ProjectUpdates =
  pu_githubProjectId :: "string option"
  pu_githubProjectUrl :: "string option"
  pu_status :: "string option"

record ActionUpdates =
  au_githubIssueId :: "string option"
  au_githubIssueNumber :: "int option"
  au_githubIssueUrl :: "string option"
  au_status :: "string option"

record IssueUpdates =
  iu_title :: "string option"
  iu_body :: "string option"
  iu_state :: "board_state option"

text \<open>
  Every call the two clients make on their SDKs. The organisation and the two database
  ids are fixed for a run and left out.
\<close>

datatype request =
    DatabasesQueryProjects
  | DatabasesQueryActions "string option"
  | PagesUpdate string properties
  | QueryProjectsV2
  | QueryOrganizationId
  | MutationCreateProjectV2 string string "string option"
  | QueryRepositoryId string
  | MutationCreateIssue string string "string option"
  | MutationCloseIssue string
  | MutationReopenIssue string
  | MutationUpdateIssue string "string option" "string option"
  | MutationAddProjectV2ItemById string string
  | QueryProjectItems string

text \<open>The requests that change a store: \<^verbatim>\<open>pages.update\<close> and the GraphQL mutations.\<close>

fun isWrite :: "request \<Rightarrow> bool" where
  "isWrite (PagesUpdate pageId props) = True"
| "isWrite (MutationCreateProjectV2 ownerId title body) = True"
| "isWrite (MutationCreateIssue repoId title body) = True"
| "isWrite (MutationCloseIssue issueId) = True"
| "isWrite (MutationReopenIssue issueId) = True"
| "isWrite (MutationUpdateIssue issueId title body) = True"
| "isWrite (MutationAddProjectV2ItemById projectId contentId) = True"
| "isWrite DatabasesQueryProjects = False"
| "isWrite (DatabasesQueryActions projectFilter) = False"
| "isWrite QueryProjectsV2 = False"
| "isWrite QueryOrganizationId = False"
| "isWrite (QueryRepositoryId repo) = False"
| "isWrite (QueryProjectItems projectId) = False"

text \<open>
  The two stores, as seen by the script: the answer to each request, given how many
  requests the run has sent before it (so an answer may depend on everything sent so far),
  and the clock read by \<^verbatim>\<open>new Date().toISOString()\<close>. \<open>Inl\<close> is a rejected promise.
  The answers to the two Notion queries are the pages already mapped to
  \<open>NotionProject\<close> and \<open>NotionAction\<close>.
\<close>

record world =
  databasesQueryProjects :: "nat \<Rightarrow> error + NotionProject list"
  databasesQueryActions :: "nat \<Rightarrow> string option \<Rightarrow> error + NotionAction list"
  projectsV2 :: "nat \<Rightarrow> error + GitHubProject list"
  projectItems :: "nat \<Rightarrow> string \<Rightarrow> error + GitHubIssue list"
  nodeId :: "nat \<Rightarrow> request \<Rightarrow> error + string"
  createProjectV2 :: "nat \<Rightarrow> string \<Rightarrow> string \<Rightarrow> string option \<Rightarrow> error + GitHubProject"
  createIssueMutation :: "nat \<Rightarrow> string \<Rightarrow> string \<Rightarrow> string option \<Rightarrow> error + GitHubIssue"
  mutation :: "nat \<Rightarrow> request \<Rightarrow> error + unit"
  clock :: "nat \<Rightarrow> string"

text \<open>
  One constructor for each \<^verbatim>\<open>console.log\<close> and \<^verbatim>\<open>console.error\<close> of the script; its
  arguments are the values the template interpolates.
\<close>

datatype log =
    DryRunUpdateProject string ProjectUpdates
      \<comment> \<open>\<^verbatim>\<open>[DRY RUN] Would update Notion project ${pageId}: updates\<close>\<close>
  | DryRunUpdateAction string ActionUpdates
      \<comment> \<open>\<^verbatim>\<open>[DRY RUN] Would update Notion action ${pageId}: updates\<close>\<close>
  | FoundExistingProject string
      \<comment> \<open>\<^verbatim>\<open>Found existing GitHub project: ${title}\<close>\<close>
  | DryRunCreateProject string
      \<comment> \<open>\<^verbatim>\<open>[DRY RUN] Would create GitHub project: ${title}\<close>\<close>
  | CreatedProject string
      \<comment> \<open>\<^verbatim>\<open>Created GitHub project: ${title}\<close>\<close>
  | DryRunCreateIssue string string
      \<comment> \<open>\<^verbatim>\<open>[DRY RUN] Would create GitHub issue in ${repo}: ${title}\<close>\<close>
  | CreatedIssue int string
      \<comment> \<open>\<^verbatim>\<open>Created GitHub issue #${issue.number}: ${title}\<close>\<close>
  | DryRunUpdateIssue string IssueUpdates
      \<comment> \<open>\<^verbatim>\<open>[DRY RUN] Would update GitHub issue ${issueId}: updates\<close>\<close>
  | DryRunAddIssueToProject string string
      \<comment> \<open>\<^verbatim>\<open>[DRY RUN] Would add issue ${issueId} to project ${projectId}\<close>\<close>
  | SyncingProjects
      \<comment> \<open>\<^verbatim>\<open>Syncing Projects...\<close>\<close>
  | FoundNotionProjects nat
      \<comment> \<open>\<^verbatim>\<open>Found ${notionProjects.length} Notion projects\<close>\<close>
  | Processing string
      \<comment> \<open>\<^verbatim>\<open>Processing: ${project.name}\<close>\<close>
  | LinkedProjectNotFound
      \<comment> \<open>\<^verbatim>\<open>Linked GitHub project not found, creating new one\<close>\<close>
  | SyncInfo sync_direction string
      \<comment> \<open>\<^verbatim>\<open>Sync: ${syncState.direction} (${syncState.reason})\<close>\<close>
  | ProjectConflict
      \<comment> \<open>\<^verbatim>\<open>CONFLICT: Manual resolution required\<close> (line 617)\<close>
  | SyncedWithProject int
      \<comment> \<open>\<^verbatim>\<open>Synced with GitHub Project #${githubProject.number}\<close>\<close>
  | ErrorSyncingProject error
      \<comment> \<open>\<^verbatim>\<open>Error syncing project: ${error}\<close>\<close>
  | SyncingActions string
      \<comment> \<open>\<^verbatim>\<open>Syncing Actions for ${notionProject.name}...\<close>\<close>
  | FoundActions nat nat
      \<comment> \<open>\<^verbatim>\<open>Found ${notionActions.length} Notion actions, ${githubIssues.length} GitHub issues\<close>\<close>
  | LinkedIssueNotFound string
      \<comment> \<open>\<^verbatim>\<open>Linked GitHub issue not found for: ${action.title}\<close>\<close>
  | ActionDirection string sync_direction
      \<comment> \<open>\<^verbatim>\<open>${action.title}: ${syncState.direction}\<close>\<close>
  | ActionConflict
      \<comment> \<open>\<^verbatim>\<open>CONFLICT: Manual resolution required\<close> (line 687)\<close>
  | UpdatedIssue int
      \<comment> \<open>\<^verbatim>\<open>Updated GitHub issue #${githubIssue.number}\<close>\<close>
  | UpdatedActionFromGitHub
      \<comment> \<open>\<^verbatim>\<open>Updated Notion action from GitHub\<close>\<close>
  | CreatedAndLinked int string
      \<comment> \<open>\<^verbatim>\<open>Created & linked GitHub issue #${githubIssue.number}: ${action.title}\<close>\<close>
  | ErrorSyncingAction string error
      \<comment> \<open>\<^verbatim>\<open>Error syncing action ${action.title}: ${error}\<close>\<close>
  | Banner
      \<comment> \<open>\<^verbatim>\<open>ChittyCan Notion <-> GitHub Sync\<close>\<close>
  | BannerRule
      \<comment> \<open>\<^verbatim>\<open>====================================\<close>\<close>
  | RunMode bool
      \<comment> \<open>\<^verbatim>\<open>Mode: ${this.dryRun ? 'DRY RUN' : 'LIVE'}\<close>\<close>
  | Repository string
      \<comment> \<open>\<^verbatim>\<open>Repository: ${repo}\<close>\<close>
  | SyncCompleted
      \<comment> \<open>\<^verbatim>\<open>Sync completed successfully!\<close>\<close>
  | DryRunHint
      \<comment> \<open>\<^verbatim>\<open>Run with DRY_RUN=false to apply changes\<close>\<close>
  | SyncFailed error
      \<comment> \<open>\<^verbatim>\<open>Sync failed: error\<close>\<close>

text \<open>What a run has done so far: the requests it sent, in order, and its console.\<close>

record run_state =
  requests :: "request list"
  console :: "log list"

definition initial :: run_state where
  "initial = \<lparr>requests = [], console = []\<rparr>"

text \<open>The writes among the requests sent.\<close>

definition writes :: "run_state \<Rightarrow> request list" where
  "writes s = filter isWrite (requests s)"

subsection \<open>Sequencing, exceptions and loops\<close>

text \<open>
  An \<^verbatim>\<open>async\<close> function is a function of the run's state that returns its result, or
  the exception it threw, with the new state.
\<close>

type_synonym 'a io = "run_state \<Rightarrow> (error + 'a) \<times> run_state"

definition ok :: "'a \<Rightarrow> 'a io" where
  "ok x = (\<lambda>s. (Inr x, s))"

definition throw :: "error \<Rightarrow> 'a io" where
  "throw e = (\<lambda>s. (Inl e, s))"

definition fromResult :: "error + 'a \<Rightarrow> 'a io" where
  "fromResult r = (\<lambda>s. (r, s))"

definition andThen :: "'a io \<Rightarrow> ('a \<Rightarrow> 'b io) \<Rightarrow> 'b io" where
  "andThen m f = (\<lambda>s. case m s of (Inl e, s') \<Rightarrow> (Inl e, s') | (Inr x, s') \<Rightarrow> f x s')"

definition tryCatch :: "'a io \<Rightarrow> (error \<Rightarrow> 'a io) \<Rightarrow> 'a io" where
  "tryCatch m handler =
     (\<lambda>s. case m s of (Inl e, s') \<Rightarrow> handler e s' | (Inr x, s') \<Rightarrow> (Inr x, s'))"

definition consoleLog :: "log \<Rightarrow> unit io" where
  "consoleLog l = (\<lambda>s. (Inr (), s\<lparr>console := console s @ [l]\<rparr>))"

text \<open>Sending a request: the world answers it, the request joins the ones sent.\<close>

definition send :: "request \<Rightarrow> (nat \<Rightarrow> error + 'a) \<Rightarrow> 'a io" where
  "send r answer = (\<lambda>s. (answer (length (requests s)), s\<lparr>requests := requests s @ [r]\<rparr>))"

text \<open>\<^verbatim>\<open>new Date().toISOString()\<close>\<close>

definition now :: "world \<Rightarrow> string io" where
  "now w = (\<lambda>s. (Inr (clock w (length (requests s))), s))"

text \<open>\<^verbatim>\<open>for (const x of xs) { ... }\<close>\<close>

fun forEach :: "'a list \<Rightarrow> ('a \<Rightarrow> unit io) \<Rightarrow> unit io" where
  "forEach [] body = ok ()"
| "forEach (x # xs) body = andThen (body x) (\<lambda>_. forEach xs body)"

text \<open>\<^verbatim>\<open>if (updates.field) properties[name] = ...\<close> for a string field.\<close>

definition whenSet :: "string \<Rightarrow> (string \<Rightarrow> prop_value) \<Rightarrow> string option \<Rightarrow> properties" where
  "whenSet name mk v =
     (case v of None \<Rightarrow> [] | Some s \<Rightarrow> if s = [] then [] else [(name, mk s)])"

subsection \<open>NotionClient (lines 138-281)\<close>

definition getProjects :: "world \<Rightarrow> NotionProject list io" where
  "getProjects w = send DatabasesQueryProjects (databasesQueryProjects w)"

definition getActions :: "world \<Rightarrow> string \<Rightarrow> NotionAction list io" where
  "getActions w projectId =
     (let projectFilter = (if projectId \<noteq> [] then Some projectId else None)
      in send (DatabasesQueryActions projectFilter)
              (\<lambda>k. databasesQueryActions w k projectFilter))"

definition updateProject :: "world \<Rightarrow> string \<Rightarrow> ProjectUpdates \<Rightarrow> bool \<Rightarrow> unit io" where
  "updateProject w pageId updates dryRun =
     (if dryRun then consoleLog (DryRunUpdateProject pageId updates)
      else
        andThen (now w) (\<lambda>stamp.
          let props =
                whenSet ''GitHub Project ID'' RichText (pu_githubProjectId updates)
                @ whenSet ''GitHub Project URL'' UrlValue (pu_githubProjectUrl updates)
                @ whenSet ''Status'' SelectName (pu_status updates)
                @ [(''Last Sync'', DateStart stamp)]
          in send (PagesUpdate pageId props) (\<lambda>k. mutation w k (PagesUpdate pageId props))))"

definition updateAction :: "world \<Rightarrow> string \<Rightarrow> ActionUpdates \<Rightarrow> bool \<Rightarrow> unit io" where
  "updateAction w pageId updates dryRun =
     (if dryRun then consoleLog (DryRunUpdateAction pageId updates)
      else
        andThen (now w) (\<lambda>stamp.
          let props =
                whenSet ''GitHub Issue ID'' RichText (au_githubIssueId updates)
                @ (case au_githubIssueNumber updates of
                     None \<Rightarrow> []
                   | Some n \<Rightarrow> if n = 0 then [] else [(''GitHub Issue #'', NumberValue n)])
                @ whenSet ''GitHub Issue URL'' UrlValue (au_githubIssueUrl updates)
                @ whenSet ''Status'' SelectName (au_status updates)
                @ [(''Last Sync'', DateStart stamp)]
          in send (PagesUpdate pageId props) (\<lambda>k. mutation w k (PagesUpdate pageId props))))"

subsection \<open>GitHubClient (lines 283-529)\<close>

definition listProjects :: "world \<Rightarrow> GitHubProject list io" where
  "listProjects w = send QueryProjectsV2 (projectsV2 w)"

definition getOrCreateProject ::
  "world \<Rightarrow> string \<Rightarrow> string option \<Rightarrow> bool \<Rightarrow> GitHubProject io" where
  "getOrCreateProject w title description dryRun =
     andThen (listProjects w) (\<lambda>existingProjects.
       case List.find (\<lambda>p. gp_title p = title) existingProjects of
         Some existing \<Rightarrow>
           andThen (consoleLog (FoundExistingProject title)) (\<lambda>_. ok existing)
       | None \<Rightarrow>
           if dryRun then
             andThen (consoleLog (DryRunCreateProject title)) (\<lambda>_.
             andThen (now w) (\<lambda>stamp.
               ok \<lparr>gp_id = ''dry-run-id'',
                   gp_number = 0,
                   gp_title = title,
                   gp_url = ''https://github.com/dry-run'',
                   gp_shortDescription = description,
                   gp_updatedAt = stamp\<rparr>))
           else
             andThen (send QueryOrganizationId (\<lambda>k. nodeId w k QueryOrganizationId))
               (\<lambda>ownerId.
             andThen (send (MutationCreateProjectV2 ownerId title description)
                           (\<lambda>k. createProjectV2 w k ownerId title description))
               (\<lambda>project.
             andThen (consoleLog (CreatedProject title)) (\<lambda>_. ok project))))"

definition addIssueToProject :: "world \<Rightarrow> string \<Rightarrow> string \<Rightarrow> bool \<Rightarrow> unit io" where
  "addIssueToProject w issueId projectId dryRun =
     (if dryRun then consoleLog (DryRunAddIssueToProject issueId projectId)
      else send (MutationAddProjectV2ItemById projectId issueId)
                (\<lambda>k. mutation w k (MutationAddProjectV2ItemById projectId issueId)))"

definition createIssue ::
  "world \<Rightarrow> string \<Rightarrow> string \<Rightarrow> string option \<Rightarrow> string option \<Rightarrow> bool \<Rightarrow> GitHubIssue io" where
  "createIssue w repo title body projectId dryRun =
     (if dryRun then
        andThen (consoleLog (DryRunCreateIssue repo title)) (\<lambda>_.
        andThen (now w) (\<lambda>stamp.
          ok \<lparr>gi_id = ''dry-run-issue-id'',
              gi_number = 0,
              gi_title = title,
              gi_body = body,
              gi_state = OPEN,
              gi_url = ''https://github.com/dry-run'',
              gi_updatedAt = stamp\<rparr>))
      else
        andThen (send (QueryRepositoryId repo) (\<lambda>k. nodeId w k (QueryRepositoryId repo)))
          (\<lambda>repoId.
        andThen (send (MutationCreateIssue repoId title body)
                      (\<lambda>k. createIssueMutation w k repoId title body))
          (\<lambda>issue.
        andThen (case projectId of
                   None \<Rightarrow> ok ()
                 | Some pid \<Rightarrow>
                     if pid = [] then ok ()
                     else addIssueToProject w (gi_id issue) pid dryRun)
          (\<lambda>_.
        andThen (consoleLog (CreatedIssue (gi_number issue) title)) (\<lambda>_. ok issue)))))"

definition updateIssue :: "world \<Rightarrow> string \<Rightarrow> IssueUpdates \<Rightarrow> bool \<Rightarrow> unit io" where
  "updateIssue w issueId updates dryRun =
     (if dryRun then consoleLog (DryRunUpdateIssue issueId updates)
      else
        andThen
          (if iu_state updates = Some (Known CLOSED) then
             send (MutationCloseIssue issueId) (\<lambda>k. mutation w k (MutationCloseIssue issueId))
           else if iu_state updates = Some (Known OPEN) then
             send (MutationReopenIssue issueId) (\<lambda>k. mutation w k (MutationReopenIssue issueId))
           else ok ())
          (\<lambda>_.
        if truthy (iu_title updates) \<or> truthy (iu_body updates) then
          send (MutationUpdateIssue issueId (iu_title updates) (iu_body updates))
               (\<lambda>k. mutation w k
                      (MutationUpdateIssue issueId (iu_title updates) (iu_body updates)))
        else ok ()))"

definition getIssuesByProject :: "world \<Rightarrow> string \<Rightarrow> GitHubIssue list io" where
  "getIssuesByProject w projectId =
     send (QueryProjectItems projectId) (\<lambda>k. projectItems w k projectId)"

subsection \<open>SyncEngine (lines 535-768)\<close>

text \<open>
  The body of the \<^verbatim>\<open>try\<close> in the loop of \<^verbatim>\<open>syncActions\<close> (lines 669-739), for one
  action. A \<^verbatim>\<open>continue\<close> ends the body.
\<close>

definition syncAction ::
  "runtime \<Rightarrow> world \<Rightarrow> bool \<Rightarrow> GitHubProject \<Rightarrow> string \<Rightarrow> GitHubIssue list
     \<Rightarrow> NotionAction \<Rightarrow> unit io" where
  "syncAction rt w dryRun githubProject repo githubIssues action =
     (if truthy (a_githubIssueId action) then
        (case List.find (\<lambda>i. Some (gi_id i) = a_githubIssueId action) githubIssues of
           None \<Rightarrow> consoleLog (LinkedIssueNotFound (a_title action))
         | Some githubIssue \<Rightarrow>
             andThen (fromResult (determineSyncDirection rt (a_updatedAt action)
                                    (gi_updatedAt githubIssue) (a_lastSyncAt action)))
               (\<lambda>syncState.
             andThen (consoleLog (ActionDirection (a_title action) (direction syncState)))
               (\<lambda>_.
             if direction syncState = Conflict then consoleLog ActionConflict
             else if direction syncState = NotionToGithub then
               andThen (updateIssue w (gi_id githubIssue)
                          \<lparr>iu_title = Some (a_title action),
                           iu_body = a_description action,
                           iu_state = Some (notionToGithubState rt (a_status action))\<rparr>
                          dryRun) (\<lambda>_.
               andThen (updateAction w (a_id action)
                          \<lparr>au_githubIssueId = None, au_githubIssueNumber = None,
                           au_githubIssueUrl = None, au_status = None\<rparr>
                          dryRun) (\<lambda>_.
               consoleLog (UpdatedIssue (gi_number githubIssue))))
             else
               andThen (updateAction w (a_id action)
                          \<lparr>au_githubIssueId = None, au_githubIssueNumber = None,
                           au_githubIssueUrl = None,
                           au_status = Some (githubToNotionStatus (gi_state githubIssue)
                                               (a_status action))\<rparr>
                          dryRun) (\<lambda>_.
               consoleLog UpdatedActionFromGitHub))))
      else
        andThen (createIssue w repo (a_title action) (a_description action)
                   (Some (gp_id githubProject)) dryRun) (\<lambda>githubIssue.
        andThen (updateAction w (a_id action)
                   \<lparr>au_githubIssueId = Some (gi_id githubIssue),
                    au_githubIssueNumber = Some (gi_number githubIssue),
                    au_githubIssueUrl = Some (gi_url githubIssue),
                    au_status = None\<rparr>
                   dryRun) (\<lambda>_.
        consoleLog (CreatedAndLinked (gi_number githubIssue) (a_title action)))))"

text \<open>The loop of \<^verbatim>\<open>syncActions\<close>, with its \<^verbatim>\<open>catch\<close> (lines 667-743).\<close>

definition syncActionsLoop ::
  "runtime \<Rightarrow> world \<Rightarrow> bool \<Rightarrow> GitHubProject \<Rightarrow> string \<Rightarrow> GitHubIssue list
     \<Rightarrow> NotionAction list \<Rightarrow> unit io" where
  "syncActionsLoop rt w dryRun githubProject repo githubIssues notionActions =
     forEach notionActions (\<lambda>action.
       tryCatch (syncAction rt w dryRun githubProject repo githubIssues action)
                (\<lambda>error. consoleLog (ErrorSyncingAction (a_title action) error)))"

definition syncActions ::
  "runtime \<Rightarrow> world \<Rightarrow> bool \<Rightarrow> NotionProject \<Rightarrow> GitHubProject \<Rightarrow> string \<Rightarrow> unit io" where
  "syncActions rt w dryRun notionProject githubProject repo =
     andThen (consoleLog (SyncingActions (p_name notionProject))) (\<lambda>_.
     andThen (getActions w (p_id notionProject)) (\<lambda>notionActions.
     andThen (getIssuesByProject w (gp_id githubProject)) (\<lambda>githubIssues.
     andThen (consoleLog (FoundActions (length notionActions) (length githubIssues))) (\<lambda>_.
     syncActionsLoop rt w dryRun githubProject repo githubIssues notionActions))))"

text \<open>
  Lines 592-631: the GitHub project of a Notion project. \<open>None\<close> is the
  \<^verbatim>\<open>continue\<close> of line 618, which leaves the \<^verbatim>\<open>try\<close> for the next project.
\<close>

definition resolveGitHubProject ::
  "runtime \<Rightarrow> world \<Rightarrow> bool \<Rightarrow> NotionProject \<Rightarrow> GitHubProject option io" where
  "resolveGitHubProject rt w dryRun project =
     (if truthy (p_githubProjectId project) then
        andThen (listProjects w) (\<lambda>allProjects.
          case List.find (\<lambda>p. Some (gp_id p) = p_githubProjectId project) allProjects of
            None \<Rightarrow>
              andThen (consoleLog LinkedProjectNotFound) (\<lambda>_.
              andThen (getOrCreateProject w (p_name project) (p_description project) dryRun)
                (\<lambda>githubProject. ok (Some githubProject)))
          | Some githubProject \<Rightarrow>
              andThen (fromResult (determineSyncDirection rt (p_updatedAt project)
                                     (gp_updatedAt githubProject) (p_lastSyncAt project)))
                (\<lambda>syncState.
              andThen (consoleLog (SyncInfo (direction syncState) (reason syncState)))
                (\<lambda>_.
              if direction syncState = Conflict then
                andThen (consoleLog ProjectConflict) (\<lambda>_. ok None)
              else ok (Some githubProject))))
      else
        andThen (getOrCreateProject w (p_name project) (p_description project) dryRun)
          (\<lambda>githubProject. ok (Some githubProject)))"

text \<open>The body of the \<^verbatim>\<open>try\<close> in the loop of \<^verbatim>\<open>syncProjects\<close> (lines 591-646).\<close>

definition syncProject ::
  "runtime \<Rightarrow> world \<Rightarrow> bool \<Rightarrow> string \<Rightarrow> NotionProject \<Rightarrow> unit io" where
  "syncProject rt w dryRun repo project =
     andThen (resolveGitHubProject rt w dryRun project) (\<lambda>resolved.
       case resolved of
         None \<Rightarrow> ok ()
       | Some githubProject \<Rightarrow>
           andThen (updateProject w (p_id project)
                      \<lparr>pu_githubProjectId = Some (gp_id githubProject),
                       pu_githubProjectUrl = Some (gp_url githubProject),
                       pu_status = None\<rparr>
                      dryRun) (\<lambda>_.
           andThen (consoleLog (SyncedWithProject (gp_number githubProject))) (\<lambda>_.
           syncActions rt w dryRun project githubProject repo)))"

text \<open>The loop of \<^verbatim>\<open>syncProjects\<close>, with its \<^verbatim>\<open>catch\<close> (lines 587-651).\<close>

definition syncProjectsLoop ::
  "runtime \<Rightarrow> world \<Rightarrow> bool \<Rightarrow> string \<Rightarrow> NotionProject list \<Rightarrow> unit io" where
  "syncProjectsLoop rt w dryRun repo notionProjects =
     forEach notionProjects (\<lambda>project.
       andThen (consoleLog (Processing (p_name project))) (\<lambda>_.
       tryCatch (syncProject rt w dryRun repo project)
                (\<lambda>error. consoleLog (ErrorSyncingProject error))))"

definition syncProjects :: "runtime \<Rightarrow> world \<Rightarrow> bool \<Rightarrow> string \<Rightarrow> unit io" where
  "syncProjects rt w dryRun repo =
     andThen (consoleLog SyncingProjects) (\<lambda>_.
     andThen (getProjects w) (\<lambda>notionProjects.
     andThen (consoleLog (FoundNotionProjects (length notionProjects))) (\<lambda>_.
     syncProjectsLoop rt w dryRun repo notionProjects)))"

definition run :: "runtime \<Rightarrow> world \<Rightarrow> bool \<Rightarrow> string \<Rightarrow> unit io" where
  "run rt w dryRun repo =
     andThen (consoleLog Banner) (\<lambda>_.
     andThen (consoleLog BannerRule) (\<lambda>_.
     andThen (consoleLog (RunMode dryRun)) (\<lambda>_.
     andThen (consoleLog (Repository repo)) (\<lambda>_.
     tryCatch
       (andThen (syncProjects rt w dryRun repo) (\<lambda>_.
        andThen (consoleLog SyncCompleted) (\<lambda>_.
        if dryRun then consoleLog DryRunHint else ok ())))
       (\<lambda>error. andThen (consoleLog (SyncFailed error)) (\<lambda>_. throw error))))))"

subsection \<open>Properties of a computation\<close>

text \<open>A computation that sends no write, whatever the state it starts from.\<close>

definition sendsNoWrite :: "'a io \<Rightarrow> bool" where
  "sendsNoWrite m = (\<forall>s. writes (snd (m s)) = writes s)"

text \<open>A computation that returns normally, whatever the state it starts from.\<close>

definition neverThrows :: "'a io \<Rightarrow> bool" where
  "neverThrows m = (\<forall>s. \<exists>x. fst (m s) = Inr x)"

text \<open>
  The lines of \<^verbatim>\<open>run\<close> itself and of the head of \<^verbatim>\<open>syncProjects\<close>: the banner, the
  mode, the repository, the number of Notion projects listed, and the closing lines.
\<close>

fun runLine :: "log \<Rightarrow> bool" where
  "runLine Banner = True"
| "runLine BannerRule = True"
| "runLine (RunMode dryRun) = True"
| "runLine (Repository repo) = True"
| "runLine SyncingProjects = True"
| "runLine (FoundNotionProjects n) = True"
| "runLine SyncCompleted = True"
| "runLine DryRunHint = True"
| "runLine (SyncFailed e) = True"
| "runLine l = False"

fun isFoundActions :: "log \<Rightarrow> bool" where
  "isFoundActions (FoundActions n m) = True"
| "isFoundActions l = False"

text \<open>
  A line \<open>Found n Notion actions, m GitHub issues\<close> whose two numbers are the sizes of a
  listing of actions and of a listing of issues that the stores returned.
\<close>

definition listingSizes :: "world \<Rightarrow> log \<Rightarrow> bool" where
  "listingSizes w l =
     (\<exists>k projectFilter notionActions k' projectId githubIssues.
        databasesQueryActions w k projectFilter = Inr notionActions
        \<and> projectItems w k' projectId = Inr githubIssues
        \<and> l = FoundActions (length notionActions) (length githubIssues))"

text \<open>
  A line that belongs to the processing of a project: none of the lines of \<^verbatim>\<open>run\<close>, and
  when it prints the sizes of listings, those of listings the stores returned.
\<close>

definition projectLine :: "world \<Rightarrow> log \<Rightarrow> bool" where
  "projectLine w l = (if runLine l then False else if isFoundActions l then listingSizes w l else True)"

text \<open>A computation that only adds lines to the console, each of them satisfying \<open>P\<close>.\<close>

definition printsOnly :: "(log \<Rightarrow> bool) \<Rightarrow> 'a io \<Rightarrow> bool" where
  "printsOnly P m = (\<forall>s. \<exists>ls. console (snd (m s)) = console s @ ls \<and> list_all P ls)"

subsection \<open>Concrete stores for evaluation\<close>

text \<open>
  A Notion project with one action, and its GitHub counterparts. The instants are the
  three of \<open>sampleRuntime\<close>: 1, 2 and 3 January 2024.
\<close>

definition launchPlan :: NotionProject where
  "launchPlan =
     \<lparr>p_id = ''page-1'', p_name = ''Launch Plan'', p_status = ''In Progress'',
      p_description = Some ''Q1 launch'', p_githubProjectId = None,
      p_githubProjectUrl = None, p_lastSyncAt = None,
      p_updatedAt = ''2024-01-02T00:00:00.000Z''\<rparr>"

definition linkedLaunchPlan :: NotionProject where
  "linkedLaunchPlan =
     launchPlan\<lparr>p_githubProjectId := Some ''PVT_1'',
                 p_githubProjectUrl := Some ''https://github.com/orgs/acme/projects/1'',
                 p_lastSyncAt := Some ''2024-01-01T00:00:00.000Z''\<rparr>"

definition hiringPlan :: NotionProject where
  "hiringPlan =
     \<lparr>p_id = ''page-2'', p_name = ''Hiring Plan'', p_status = ''Not Started'',
      p_description = None, p_githubProjectId = None,
      p_githubProjectUrl = None, p_lastSyncAt = None,
      p_updatedAt = ''2024-01-02T00:00:00.000Z''\<rparr>"

definition launchBoard :: GitHubProject where
  "launchBoard =
     \<lparr>gp_id = ''PVT_1'', gp_number = 1, gp_title = ''Launch Plan'',
      gp_url = ''https://github.com/orgs/acme/projects/1'',
      gp_shortDescription = Some ''Q1 launch'',
      gp_updatedAt = ''2024-01-03T00:00:00.000Z''\<rparr>"

text \<open>The board as it was at the last sync, under an older title.\<close>

definition staleBoard :: GitHubProject where
  "staleBoard =
     launchBoard\<lparr>gp_title := ''Launch'', gp_updatedAt := ''2024-01-01T00:00:00.000Z''\<rparr>"

definition writeCopy :: NotionAction where
  "writeCopy =
     \<lparr>a_id = ''action-1'', a_title = ''Write copy'', a_status = ''In Progress'',
      a_projectId = Some ''page-1'', a_githubIssueId = None, a_githubIssueNumber = Some 0,
      a_githubIssueUrl = None, a_description = Some ''Draft the landing page'',
      a_lastSyncAt = None, a_updatedAt = ''2024-01-01T00:00:00.000Z''\<rparr>"

definition linkedWriteCopy :: NotionAction where
  "linkedWriteCopy =
     writeCopy\<lparr>a_githubIssueId := Some ''I_7'', a_githubIssueNumber := Some 7,
                a_githubIssueUrl := Some ''https://github.com/acme/site/issues/7'',
                a_lastSyncAt := Some ''2024-01-02T00:00:00.000Z''\<rparr>"

definition issue7 :: GitHubIssue where
  "issue7 =
     \<lparr>gi_id = ''I_7'', gi_number = 7, gi_title = ''Write final copy'',
      gi_body = Some ''Longer brief'', gi_state = CLOSED,
      gi_url = ''https://github.com/acme/site/issues/7'',
      gi_updatedAt = ''2024-01-03T00:00:00.000Z''\<rparr>"

text \<open>Two stores that hold nothing and accept every request.\<close>

definition quietWorld :: world where
  "quietWorld =
     \<lparr>databasesQueryProjects = (\<lambda>k. Inr []),
      databasesQueryActions = (\<lambda>k projectFilter. Inr []),
      projectsV2 = (\<lambda>k. Inr []),
      projectItems = (\<lambda>k projectId. Inr []),
      nodeId = (\<lambda>k r. Inr ''node-1''),
      createProjectV2 = (\<lambda>k ownerId title body.
        Inr \<lparr>gp_id = ''PVT_9'', gp_number = 9, gp_title = title,
             gp_url = ''https://github.com/orgs/acme/projects/9'',
             gp_shortDescription = body, gp_updatedAt = ''2024-01-03T00:00:00.000Z''\<rparr>),
      createIssueMutation = (\<lambda>k repoId title body.
        Inr \<lparr>gi_id = ''I_9'', gi_number = 9, gi_title = title, gi_body = body,
             gi_state = OPEN, gi_url = ''https://github.com/acme/site/issues/9'',
             gi_updatedAt = ''2024-01-03T00:00:00.000Z''\<rparr>),
      mutation = (\<lambda>k r. Inr ()),
      clock = (\<lambda>k. ''2024-01-03T00:00:00.000Z'')\<rparr>"

text \<open>The unlinked project and its unlinked action; GitHub has the board, with no item.\<close>

definition firstRunWorld :: world where
  "firstRunWorld =
     quietWorld\<lparr>databasesQueryProjects := (\<lambda>k. Inr [launchPlan]),
                 databasesQueryActions := (\<lambda>k projectFilter. Inr [writeCopy]),
                 projectsV2 := (\<lambda>k. Inr [launchBoard])\<rparr>"

text \<open>
  The linked project, changed on both sides since its last sync, followed by a second
  project; GitHub has the board.
\<close>

definition conflictWorld :: world where
  "conflictWorld =
     quietWorld\<lparr>databasesQueryProjects := (\<lambda>k. Inr [linkedLaunchPlan, hiringPlan]),
                 projectsV2 := (\<lambda>k. Inr [launchBoard])\<rparr>"

text \<open>Two unlinked projects; GitHub does not answer.\<close>

definition unreachableGitHub :: world where
  "unreachableGitHub =
     quietWorld\<lparr>databasesQueryProjects := (\<lambda>k. Inr [launchPlan, hiringPlan]),
                 projectsV2 := (\<lambda>k. Inl (ApiError ''timeout''))\<rparr>"

text \<open>The linked project, changed on the Notion side only; GitHub has the older board.\<close>

definition linkedWorld :: world where
  "linkedWorld = quietWorld\<lparr>projectsV2 := (\<lambda>k. Inr [staleBoard])\<rparr>"

text \<open>
  The board was deleted and made again under the same title: GitHub has it under
  another id.
\<close>

definition rebuiltBoard :: GitHubProject where
  "rebuiltBoard =
     launchBoard\<lparr>gp_id := ''PVT_2'', gp_number := 2,
                 gp_url := ''https://github.com/orgs/acme/projects/2''\<rparr>"

definition rebuiltWorld :: world where
  "rebuiltWorld = quietWorld\<lparr>projectsV2 := (\<lambda>k. Inr [rebuiltBoard])\<rparr>"

text \<open>GitHub does not know the repository.\<close>

definition unknownRepository :: world where
  "unknownRepository =
     quietWorld\<lparr>nodeId := (\<lambda>k r. Inl (ApiError ''Could not resolve to a Repository''))\<rparr>"

text \<open>Notion rejects the token.\<close>

definition unreachableNotion :: world where
  "unreachableNotion =
     quietWorld\<lparr>databasesQueryProjects := (\<lambda>k. Inl (ApiError ''unauthorized''))\<rparr>"

section \<open>Properties\<close>

subsection \<open>The direction decision and the status tables\<close>


lemma js_gt_None [simp]: "js_gt None b = False" "js_gt a None = False"
  by (simp_all add: js_gt_def split: option.splits)

lemma js_gt_Some [simp]: "js_gt (Some x) (Some y) = (x > y)"
  by (simp add: js_gt_def)

lemma js_gt_valid: "js_gt a b \<Longrightarrow> \<exists>x. a = Some x"
  by (cases a) simp_all

lemma determine_cases:
  "determineSyncDirection rt n g l =
     (if js_gt (Date_getTime rt n) (lastSyncTime rt l) \<and> js_gt (Date_getTime rt g) (lastSyncTime rt l)
      then Inr \<lparr>direction = Conflict,
                reason = ''Both updated since last sync (Notion: ''
                         @ Date_toISOString rt (the (Date_getTime rt n))
                         @ '', GitHub: '' @ Date_toISOString rt (the (Date_getTime rt g)) @ '')''\<rparr>
      else if js_gt (Date_getTime rt n) (lastSyncTime rt l)
      then Inr \<lparr>direction = NotionToGithub,
                reason = ''Notion updated at '' @ Date_toISOString rt (the (Date_getTime rt n))\<rparr>
      else if js_gt (Date_getTime rt g) (lastSyncTime rt l)
      then Inr \<lparr>direction = GithubToNotion,
                reason = ''GitHub updated at '' @ Date_toISOString rt (the (Date_getTime rt g))\<rparr>
      else Inr \<lparr>direction = NotionToGithub,
                reason = ''No changes detected, defaulting to Notion''\<rparr>)"
  by (auto simp: determineSyncDirection_def Let_def toISOString_def dest!: js_gt_valid)

lemma directionOf_determine:
  "directionOf (determineSyncDirection rt n g l) =
     Some (spec_direction (Date_getTime rt n) (Date_getTime rt g) (lastSyncTime rt l))"
  by (simp add: determine_cases directionOf_def spec_direction_def Let_def)


lemma sample_getTime [simp]:
  "Date_getTime sampleRuntime ''2024-01-01T00:00:00.000Z'' = Some 1704067200000"
  "Date_getTime sampleRuntime ''2024-01-02T00:00:00.000Z'' = Some 1704153600000"
  "Date_getTime sampleRuntime ''2024-01-03T00:00:00.000Z'' = Some 1704240000000"
  "Date_getTime sampleRuntime ''not a date'' = None"
  "Date_getTime sampleRuntime ''tomorrow-ish'' = None"
  by (simp_all add: sampleRuntime_def isoInstants_def)

lemma sample_toISO [simp]:
  "Date_toISOString sampleRuntime 1704067200000 = ''2024-01-01T00:00:00.000Z''"
  "Date_toISOString sampleRuntime 1704153600000 = ''2024-01-02T00:00:00.000Z''"
  "Date_toISOString sampleRuntime 1704240000000 = ''2024-01-03T00:00:00.000Z''"
  by (simp_all add: sampleRuntime_def isoInstants_def)


text \<open>
  \<^bold>\<open>C6.\<close> The status round trip through the two tables: \<open>Completed\<close> goes to
  \<open>CLOSED\<close> and back to \<open>Completed\<close>, and \<open>In Progress\<close> is stable too; \<open>Blocked\<close> goes
  to \<open>OPEN\<close> and comes back as \<open>In Progress\<close>. The six statuses of the table come back
  as \<open>In Progress\<close> (the four open ones) or \<open>Completed\<close> (the two closed ones). For
  every string the round trip returns a status and is idempotent: a status the table
  does not have comes back as \<open>In Progress\<close>, unless it names a member that the table
  object inherits (such as \<open>constructor\<close>), which comes back unchanged.
\<close>

theorem status_round_trip:
  "statusRoundTrip rt ''Completed'' = ''Completed''
   \<and> statusRoundTrip rt ''In Progress'' = ''In Progress''
   \<and> notionToGithubState rt ''Completed'' = Known CLOSED
   \<and> githubToNotionStatus CLOSED ''Completed'' = ''Completed''
   \<and> notionToGithubState rt ''Blocked'' = Known OPEN
   \<and> githubToNotionStatus OPEN ''Blocked'' = ''In Progress''
   \<and> statusRoundTrip rt ''Blocked'' = ''In Progress''
   \<and> map (statusRoundTrip rt) (map fst NOTION_TO_GITHUB_STATUS) =
       [''In Progress'', ''In Progress'', ''In Progress'', ''In Progress'',
        ''Completed'', ''Completed'']
   \<and> statusRoundTrip rt s =
       (if map_of NOTION_TO_GITHUB_STATUS s = None \<and> s \<in> set (Object_prototype rt) then s
        else if map_of NOTION_TO_GITHUB_STATUS s = Some CLOSED then ''Completed''
        else ''In Progress'')
   \<and> statusRoundTrip rt (statusRoundTrip rt s) = statusRoundTrip rt s
   \<and> notionToGithubState sampleRuntime ''constructor'' = InheritedMember ''constructor''
   \<and> statusRoundTrip sampleRuntime ''constructor'' = ''constructor''"
proof -
  have known: "statusRoundTrip rt ''Completed'' = ''Completed''"
    "statusRoundTrip rt ''In Progress'' = ''In Progress''"
    "statusRoundTrip rt ''Blocked'' = ''In Progress''"
    "notionToGithubState rt ''Completed'' = Known CLOSED"
    "notionToGithubState rt ''Blocked'' = Known OPEN"
    "githubToNotionStatus CLOSED ''Completed'' = ''Completed''"
    "githubToNotionStatus OPEN ''Blocked'' = ''In Progress''"
    by (simp_all add: statusRoundTrip_def githubToNotionStatus_def notionToGithubState_def
        NOTION_TO_GITHUB_STATUS_def GITHUB_TO_NOTION_STATUS_def)
  have keys: "map (statusRoundTrip rt) (map fst NOTION_TO_GITHUB_STATUS) =
       [''In Progress'', ''In Progress'', ''In Progress'', ''In Progress'',
        ''Completed'', ''Completed'']"
    by (simp add: statusRoundTrip_def githubToNotionStatus_def notionToGithubState_def
        NOTION_TO_GITHUB_STATUS_def GITHUB_TO_NOTION_STATUS_def)
  have every: "statusRoundTrip rt s =
       (if map_of NOTION_TO_GITHUB_STATUS s = None \<and> s \<in> set (Object_prototype rt) then s
        else if map_of NOTION_TO_GITHUB_STATUS s = Some CLOSED then ''Completed''
        else ''In Progress'')" for s
  proof (cases "map_of NOTION_TO_GITHUB_STATUS s")
    case None
    then show ?thesis
      by (simp add: statusRoundTrip_def notionToGithubState_def githubToNotionStatus_def
          GITHUB_TO_NOTION_STATUS_def)
  next
    case (Some st)
    then show ?thesis
      by (cases st)
        (simp_all add: statusRoundTrip_def notionToGithubState_def githubToNotionStatus_def
          GITHUB_TO_NOTION_STATUS_def)
  qed
  have idem: "statusRoundTrip rt (statusRoundTrip rt s) = statusRoundTrip rt s"
  proof (cases "map_of NOTION_TO_GITHUB_STATUS s = None \<and> s \<in> set (Object_prototype rt)")
    case True
    then have "statusRoundTrip rt s = s" by (simp add: every)
    then show ?thesis by simp
  next
    case False
    then have "statusRoundTrip rt s = ''Completed'' \<or> statusRoundTrip rt s = ''In Progress''"
      using every [of s] by auto
    with known(1,2) show ?thesis by auto
  qed
  have inherited: "notionToGithubState sampleRuntime ''constructor'' = InheritedMember ''constructor''"
    "statusRoundTrip sampleRuntime ''constructor'' = ''constructor''"
    by (simp_all add: statusRoundTrip_def notionToGithubState_def NOTION_TO_GITHUB_STATUS_def
        sampleRuntime_def)
  from known keys every [of s] idem inherited show ?thesis by blast
qed

text \<open>
  \<^bold>\<open>C3\<close>, as stated, fails when neither side changed: both orders of the arguments give
  Notion to GitHub, which is not its own swap.
\<close>

theorem direction_swap_counterexample:
  "directionOf (determineSyncDirection sampleRuntime ''2024-01-01T00:00:00.000Z''
      ''2024-01-02T00:00:00.000Z'' (Some ''2024-01-03T00:00:00.000Z'')) = Some NotionToGithub
   \<and> directionOf (determineSyncDirection sampleRuntime ''2024-01-02T00:00:00.000Z''
      ''2024-01-01T00:00:00.000Z'' (Some ''2024-01-03T00:00:00.000Z'')) = Some NotionToGithub
   \<and> directionOf (determineSyncDirection sampleRuntime ''2024-01-02T00:00:00.000Z''
      ''2024-01-01T00:00:00.000Z'' (Some ''2024-01-03T00:00:00.000Z''))
     \<noteq> map_option swapDirection
         (directionOf (determineSyncDirection sampleRuntime ''2024-01-01T00:00:00.000Z''
            ''2024-01-02T00:00:00.000Z'' (Some ''2024-01-03T00:00:00.000Z'')))"
  by (simp add: directionOf_determine spec_direction_def lastSyncTime_def)

lemma spec_direction_swap:
  "js_gt a l \<or> js_gt b l \<Longrightarrow> spec_direction b a l = swapDirection (spec_direction a b l)"
  by (auto simp: spec_direction_def Let_def)

text \<open>
  \<^bold>\<open>C3\<close>, amended. The decision always returns a direction. When at least one side is
  later than the last sync, swapping the two \<open>updatedAt\<close> arguments swaps the direction
  (conflict stays conflict). When neither is, both orders return Notion to GitHub.
\<close>

theorem direction_swap_symmetry:
  "(\<exists>d. directionOf (determineSyncDirection rt n g l) = Some d)
   \<and> (js_gt (Date_getTime rt n) (lastSyncTime rt l) \<or> js_gt (Date_getTime rt g) (lastSyncTime rt l)
      \<longrightarrow> directionOf (determineSyncDirection rt g n l) =
            map_option swapDirection (directionOf (determineSyncDirection rt n g l)))
   \<and> (\<not> js_gt (Date_getTime rt n) (lastSyncTime rt l)
        \<and> \<not> js_gt (Date_getTime rt g) (lastSyncTime rt l)
      \<longrightarrow> directionOf (determineSyncDirection rt n g l) = Some NotionToGithub
          \<and> directionOf (determineSyncDirection rt g n l) = Some NotionToGithub)"
  by (auto simp: directionOf_determine spec_direction_swap) (simp_all add: spec_direction_def)

text \<open>One side changed: the swap holds. Neither changed: the default, in both orders.\<close>

theorem direction_swap_symmetry_witness:
  "js_gt (Date_getTime sampleRuntime ''2024-01-03T00:00:00.000Z'')
         (lastSyncTime sampleRuntime (Some ''2024-01-02T00:00:00.000Z''))
   \<and> directionOf (determineSyncDirection sampleRuntime ''2024-01-03T00:00:00.000Z''
        ''2024-01-01T00:00:00.000Z'' (Some ''2024-01-02T00:00:00.000Z'')) = Some NotionToGithub
   \<and> directionOf (determineSyncDirection sampleRuntime ''2024-01-01T00:00:00.000Z''
        ''2024-01-03T00:00:00.000Z'' (Some ''2024-01-02T00:00:00.000Z'')) = Some GithubToNotion
   \<and> \<not> js_gt (Date_getTime sampleRuntime ''2024-01-01T00:00:00.000Z'')
           (lastSyncTime sampleRuntime (Some ''2024-01-03T00:00:00.000Z''))
   \<and> \<not> js_gt (Date_getTime sampleRuntime ''2024-01-02T00:00:00.000Z'')
           (lastSyncTime sampleRuntime (Some ''2024-01-03T00:00:00.000Z''))
   \<and> directionOf (determineSyncDirection sampleRuntime ''2024-01-02T00:00:00.000Z''
        ''2024-01-01T00:00:00.000Z'' (Some ''2024-01-03T00:00:00.000Z'')) = Some NotionToGithub"
proof -
  have changed: "js_gt (Date_getTime sampleRuntime ''2024-01-03T00:00:00.000Z'')
         (lastSyncTime sampleRuntime (Some ''2024-01-02T00:00:00.000Z''))"
    by (simp add: lastSyncTime_def)
  have first: "directionOf (determineSyncDirection sampleRuntime ''2024-01-03T00:00:00.000Z''
        ''2024-01-01T00:00:00.000Z'' (Some ''2024-01-02T00:00:00.000Z'')) = Some NotionToGithub"
    by (simp add: determine_cases directionOf_def lastSyncTime_def)
  have unchanged: "\<not> js_gt (Date_getTime sampleRuntime ''2024-01-01T00:00:00.000Z'')
           (lastSyncTime sampleRuntime (Some ''2024-01-03T00:00:00.000Z''))
   \<and> \<not> js_gt (Date_getTime sampleRuntime ''2024-01-02T00:00:00.000Z'')
           (lastSyncTime sampleRuntime (Some ''2024-01-03T00:00:00.000Z''))"
    by (simp add: lastSyncTime_def)
  from direction_swap_symmetry [of sampleRuntime "''2024-01-03T00:00:00.000Z''"
      "''2024-01-01T00:00:00.000Z''" "Some ''2024-01-02T00:00:00.000Z''"] changed first
  have swapped: "directionOf (determineSyncDirection sampleRuntime ''2024-01-01T00:00:00.000Z''
        ''2024-01-03T00:00:00.000Z'' (Some ''2024-01-02T00:00:00.000Z'')) = Some GithubToNotion"
    by simp
  from direction_swap_symmetry [of sampleRuntime "''2024-01-01T00:00:00.000Z''"
      "''2024-01-02T00:00:00.000Z''" "Some ''2024-01-03T00:00:00.000Z''"] unchanged
  have "directionOf (determineSyncDirection sampleRuntime ''2024-01-02T00:00:00.000Z''
        ''2024-01-01T00:00:00.000Z'' (Some ''2024-01-03T00:00:00.000Z'')) = Some NotionToGithub"
    by blast
  with changed first swapped unchanged show ?thesis by blast
qed

text \<open>
  \<^bold>\<open>C10.\<close> The decision returns for all strings; \<^verbatim>\<open>toISOString\<close> is only reached on a
  valid time value. A side whose \<open>updatedAt\<close> does not parse compares false against the
  last sync and counts as unchanged; when neither parses, the result is the
  no-changes default.
\<close>

theorem direction_never_throws:
  "(\<exists>st. determineSyncDirection rt n g l = Inr st)
   \<and> js_gt None (lastSyncTime rt l) = False
   \<and> (Date_getTime rt n = None
      \<longrightarrow> directionOf (determineSyncDirection rt n g l) =
            Some (if js_gt (Date_getTime rt g) (lastSyncTime rt l)
                  then GithubToNotion else NotionToGithub))
   \<and> (Date_getTime rt g = None
      \<longrightarrow> directionOf (determineSyncDirection rt n g l) = Some NotionToGithub)
   \<and> (Date_getTime rt n = None \<and> Date_getTime rt g = None
      \<longrightarrow> determineSyncDirection rt n g l =
            Inr \<lparr>direction = NotionToGithub,
                 reason = ''No changes detected, defaulting to Notion''\<rparr>)"
proof (intro conjI)
  show "\<exists>st. determineSyncDirection rt n g l = Inr st"
    by (simp add: determine_cases)
  show "js_gt None (lastSyncTime rt l) = False"
    by simp
  show "Date_getTime rt n = None \<and> Date_getTime rt g = None
      \<longrightarrow> determineSyncDirection rt n g l =
            Inr \<lparr>direction = NotionToGithub,
                 reason = ''No changes detected, defaulting to Notion''\<rparr>"
    by (simp add: determine_cases)
qed (simp_all add: directionOf_determine spec_direction_def Let_def)

text \<open>Unparseable timestamps on both sides, on the left only, on the right only.\<close>

theorem direction_never_throws_witness:
  "Date_getTime sampleRuntime ''not a date'' = None
   \<and> Date_getTime sampleRuntime ''tomorrow-ish'' = None
   \<and> determineSyncDirection sampleRuntime ''not a date'' ''tomorrow-ish''
        (Some ''2024-01-01T00:00:00.000Z'') =
       Inr \<lparr>direction = NotionToGithub,
            reason = ''No changes detected, defaulting to Notion''\<rparr>
   \<and> directionOf (determineSyncDirection sampleRuntime ''not a date''
        ''2024-01-02T00:00:00.000Z'' (Some ''2024-01-01T00:00:00.000Z'')) = Some GithubToNotion
   \<and> directionOf (determineSyncDirection sampleRuntime ''2024-01-02T00:00:00.000Z''
        ''not a date'' (Some ''2024-01-01T00:00:00.000Z'')) = Some NotionToGithub"
proof -
  have nan: "Date_getTime sampleRuntime ''not a date'' = None"
    "Date_getTime sampleRuntime ''tomorrow-ish'' = None"
    by simp_all
  from direction_never_throws [of sampleRuntime "''not a date''" "''tomorrow-ish''"
      "Some ''2024-01-01T00:00:00.000Z''"] nan
  have both: "determineSyncDirection sampleRuntime ''not a date'' ''tomorrow-ish''
        (Some ''2024-01-01T00:00:00.000Z'') =
       Inr \<lparr>direction = NotionToGithub,
            reason = ''No changes detected, defaulting to Notion''\<rparr>"
    by blast
  from direction_never_throws [of sampleRuntime "''not a date''" "''2024-01-02T00:00:00.000Z''"
      "Some ''2024-01-01T00:00:00.000Z''"] nan
  have left: "directionOf (determineSyncDirection sampleRuntime ''not a date''
        ''2024-01-02T00:00:00.000Z'' (Some ''2024-01-01T00:00:00.000Z'')) = Some GithubToNotion"
    by (simp add: lastSyncTime_def)
  from direction_never_throws [of sampleRuntime "''2024-01-02T00:00:00.000Z''" "''not a date''"
      "Some ''2024-01-01T00:00:00.000Z''"] nan
  have right: "directionOf (determineSyncDirection sampleRuntime ''2024-01-02T00:00:00.000Z''
        ''not a date'' (Some ''2024-01-01T00:00:00.000Z'')) = Some NotionToGithub"
    by blast
  from nan both left right show ?thesis by blast
qed

subsection \<open>Unfolding sets\<close>

lemmas io_defs = ok_def throw_def fromResult_def andThen_def tryCatch_def consoleLog_def
  send_def now_def

lemmas client_defs = getProjects_def getActions_def updateProject_def updateAction_def
  listProjects_def getOrCreateProject_def addIssueToProject_def createIssue_def
  updateIssue_def getIssuesByProject_def whenSet_def truthy_def

lemmas engine_defs = syncAction_def syncActionsLoop_def syncActions_def
  resolveGitHubProject_def syncProject_def syncProjectsLoop_def syncProjects_def run_def

lemmas sample_defs = launchPlan_def linkedLaunchPlan_def hiringPlan_def launchBoard_def
  staleBoard_def writeCopy_def linkedWriteCopy_def issue7_def quietWorld_def
  firstRunWorld_def conflictWorld_def unreachableGitHub_def linkedWorld_def
  rebuiltBoard_def rebuiltWorld_def unknownRepository_def unreachableNotion_def initial_def

lemmas decision_defs = determineSyncDirection_def lastSyncTime_def toISOString_def

subsection \<open>Computations that send no write\<close>

lemma writes_console [simp]: "writes (s\<lparr>console := c\<rparr>) = writes s"
  by (simp add: writes_def)

lemma writes_send [simp]:
  "writes (s\<lparr>requests := requests s @ [r]\<rparr>) = writes s @ (if isWrite r then [r] else [])"
  by (simp add: writes_def)

lemma noWrite_ok [intro!, simp]: "sendsNoWrite (ok x)"
  by (simp add: sendsNoWrite_def ok_def)

lemma noWrite_throw [intro!, simp]: "sendsNoWrite (throw e)"
  by (simp add: sendsNoWrite_def throw_def)

lemma noWrite_fromResult [intro!, simp]: "sendsNoWrite (fromResult r)"
  by (simp add: sendsNoWrite_def fromResult_def)

lemma noWrite_consoleLog [intro!, simp]: "sendsNoWrite (consoleLog l)"
  by (simp add: sendsNoWrite_def consoleLog_def)

lemma noWrite_now [intro!, simp]: "sendsNoWrite (now w)"
  by (simp add: sendsNoWrite_def now_def)

lemma noWrite_send [intro!]: "\<not> isWrite r \<Longrightarrow> sendsNoWrite (send r answer)"
  by (simp add: sendsNoWrite_def send_def)

lemma noWrite_andThen [intro!]:
  assumes "sendsNoWrite m" and "\<And>x. sendsNoWrite (f x)"
  shows "sendsNoWrite (andThen m f)"
  unfolding sendsNoWrite_def
proof
  fix s
  obtain r s' where ms: "m s = (r, s')" by (cases "m s")
  with assms(1) have w: "writes s' = writes s"
    by (auto simp: sendsNoWrite_def dest: spec [of _ s])
  show "writes (snd (andThen m f s)) = writes s"
  proof (cases r)
    case (Inl e)
    with ms w show ?thesis by (simp add: andThen_def)
  next
    case (Inr x)
    from assms(2) [of x] have "writes (snd (f x s')) = writes s'"
      by (simp add: sendsNoWrite_def)
    with ms w Inr show ?thesis by (simp add: andThen_def)
  qed
qed

lemma noWrite_tryCatch [intro!]:
  assumes "sendsNoWrite m" and "\<And>e. sendsNoWrite (h e)"
  shows "sendsNoWrite (tryCatch m h)"
  unfolding sendsNoWrite_def
proof
  fix s
  obtain r s' where ms: "m s = (r, s')" by (cases "m s")
  with assms(1) have w: "writes s' = writes s"
    by (auto simp: sendsNoWrite_def dest: spec [of _ s])
  show "writes (snd (tryCatch m h s)) = writes s"
  proof (cases r)
    case (Inl e)
    from assms(2) [of e] have "writes (snd (h e s')) = writes s'"
      by (simp add: sendsNoWrite_def)
    with ms w Inl show ?thesis by (simp add: tryCatch_def)
  next
    case (Inr x)
    with ms w show ?thesis by (simp add: tryCatch_def)
  qed
qed

lemma noWrite_forEach [intro!]:
  assumes "\<And>x. sendsNoWrite (body x)"
  shows "sendsNoWrite (forEach xs body)"
  by (induction xs) (auto intro: assms)

lemma noWrite_updateProject: "sendsNoWrite (updateProject w pageId updates True)"
  by (simp add: updateProject_def)

lemma noWrite_updateAction: "sendsNoWrite (updateAction w pageId updates True)"
  by (simp add: updateAction_def)

lemma noWrite_updateIssue: "sendsNoWrite (updateIssue w issueId updates True)"
  by (simp add: updateIssue_def)

lemma noWrite_addIssueToProject: "sendsNoWrite (addIssueToProject w issueId projectId True)"
  by (simp add: addIssueToProject_def)

lemma noWrite_createIssue: "sendsNoWrite (createIssue w repo title body projectId True)"
  by (auto simp: createIssue_def)

lemma noWrite_listProjects: "sendsNoWrite (listProjects w)"
  by (auto simp: listProjects_def)

lemma noWrite_getOrCreateProject: "sendsNoWrite (getOrCreateProject w title description True)"
  by (auto simp: getOrCreateProject_def noWrite_listProjects split: option.splits)

lemma noWrite_syncAction:
  "sendsNoWrite (syncAction rt w True githubProject repo githubIssues action)"
  by (auto simp: syncAction_def noWrite_updateIssue noWrite_updateAction noWrite_createIssue
      split: option.splits)

lemma noWrite_syncActions: "sendsNoWrite (syncActions rt w True notionProject githubProject repo)"
  by (auto simp: syncActions_def syncActionsLoop_def getActions_def getIssuesByProject_def Let_def
      noWrite_syncAction)

lemma noWrite_resolveGitHubProject: "sendsNoWrite (resolveGitHubProject rt w True project)"
  by (auto simp: resolveGitHubProject_def noWrite_listProjects noWrite_getOrCreateProject
      split: option.splits)

lemma noWrite_syncProject: "sendsNoWrite (syncProject rt w True repo project)"
  by (auto simp: syncProject_def noWrite_resolveGitHubProject noWrite_updateProject
      noWrite_syncActions split: option.splits)

lemma noWrite_syncProjects: "sendsNoWrite (syncProjects rt w True repo)"
  by (auto simp: syncProjects_def syncProjectsLoop_def getProjects_def noWrite_syncProject)

lemma noWrite_run: "sendsNoWrite (run rt w True repo)"
  by (auto simp: run_def noWrite_syncProjects)

subsection \<open>Computations that never throw\<close>

lemma neverThrows_ok [intro!, simp]: "neverThrows (ok x)"
  by (simp add: neverThrows_def ok_def)

lemma neverThrows_consoleLog [intro!, simp]: "neverThrows (consoleLog l)"
  by (simp add: neverThrows_def consoleLog_def)

lemma neverThrows_andThen [intro!]:
  assumes "neverThrows m" and "\<And>x. neverThrows (f x)"
  shows "neverThrows (andThen m f)"
  unfolding neverThrows_def
proof
  fix s
  from assms(1) obtain x s' where "m s = (Inr x, s')"
    by (metis neverThrows_def prod.collapse)
  moreover from assms(2) [of x] obtain y where "fst (f x s') = Inr y"
    by (auto simp: neverThrows_def)
  ultimately show "\<exists>y. fst (andThen m f s) = Inr y"
    by (simp add: andThen_def)
qed

lemma neverThrows_tryCatch [intro!]:
  assumes "\<And>e. neverThrows (h e)"
  shows "neverThrows (tryCatch m h)"
  unfolding neverThrows_def
proof
  fix s
  obtain r s' where ms: "m s = (r, s')" by (cases "m s")
  show "\<exists>y. fst (tryCatch m h s) = Inr y"
  proof (cases r)
    case (Inl e)
    from assms [of e] obtain y where "fst (h e s') = Inr y"
      by (auto simp: neverThrows_def)
    with ms Inl show ?thesis by (simp add: tryCatch_def)
  next
    case (Inr x)
    with ms show ?thesis by (simp add: tryCatch_def)
  qed
qed

lemma neverThrows_forEach [intro!]:
  assumes "\<And>x. neverThrows (body x)"
  shows "neverThrows (forEach xs body)"
  by (induction xs) (auto intro: assms)

lemma neverThrows_syncActionsLoop:
  "neverThrows (syncActionsLoop rt w dryRun githubProject repo githubIssues notionActions)"
  by (auto simp: syncActionsLoop_def)

lemma neverThrows_syncProjectsLoop:
  "neverThrows (syncProjectsLoop rt w dryRun repo notionProjects)"
  by (auto simp: syncProjectsLoop_def)

lemma neverThrows_unit: "neverThrows (m :: unit io) \<Longrightarrow> fst (m s) = Inr ()"
  by (auto simp: neverThrows_def dest: spec [of _ s])

lemma syncProjects_result:
  "fst (syncProjects rt w dryRun repo s) =
     (case databasesQueryProjects w (length (requests s)) of
        Inl e \<Rightarrow> Inl e | Inr notionProjects \<Rightarrow> Inr ())"
  by (simp add: syncProjects_def andThen_def consoleLog_def getProjects_def send_def
      neverThrows_unit [OF neverThrows_syncProjectsLoop] split: sum.splits prod.splits)

lemma run_result:
  "fst (run rt w dryRun repo s) =
     (case databasesQueryProjects w (length (requests s)) of
        Inl e \<Rightarrow> Inl e | Inr notionProjects \<Rightarrow> Inr ())"
proof -
  let ?s = "s\<lparr>console := console s @ [Banner, BannerRule, RunMode dryRun, Repository repo]\<rparr>"
  obtain r s' where sp: "syncProjects rt w dryRun repo ?s = (r, s')"
    by (cases "syncProjects rt w dryRun repo ?s")
  from syncProjects_result [of rt w dryRun repo ?s] sp
  have r: "r = (case databasesQueryProjects w (length (requests s)) of
        Inl e \<Rightarrow> Inl e | Inr notionProjects \<Rightarrow> Inr ())" by simp
  show ?thesis
    using sp r
    by (simp add: run_def andThen_def consoleLog_def tryCatch_def throw_def ok_def
        split: sum.splits)
qed

subsection \<open>What a computation prints\<close>

lemma printsOnly_silent:
  assumes "\<And>s. console (snd (m s)) = console s"
  shows "printsOnly P m"
  unfolding printsOnly_def
proof
  fix s
  from assms [of s] have "console (snd (m s)) = console s @ [] \<and> list_all P []" by simp
  then show "\<exists>ls. console (snd (m s)) = console s @ ls \<and> list_all P ls" by blast
qed

lemma printsOnly_ok [intro!, simp]: "printsOnly P (ok x)"
  by (rule printsOnly_silent) (simp add: ok_def)

lemma printsOnly_throw [intro!, simp]: "printsOnly P (throw e)"
  by (rule printsOnly_silent) (simp add: throw_def)

lemma printsOnly_fromResult [intro!, simp]: "printsOnly P (fromResult r)"
  by (rule printsOnly_silent) (simp add: fromResult_def)

lemma printsOnly_now [intro!, simp]: "printsOnly P (now w)"
  by (rule printsOnly_silent) (simp add: now_def)

lemma printsOnly_send [intro!, simp]: "printsOnly P (send r answer)"
  by (rule printsOnly_silent) (simp add: send_def)

lemma printsOnly_consoleLog [intro!]: "P l \<Longrightarrow> printsOnly P (consoleLog l)"
  unfolding printsOnly_def
proof
  fix s
  assume "P l"
  then have "console (snd (consoleLog l s)) = console s @ [l] \<and> list_all P [l]"
    by (simp add: consoleLog_def)
  then show "\<exists>ls. console (snd (consoleLog l s)) = console s @ ls \<and> list_all P ls" by blast
qed

lemma printsOnly_andThen_reached:
  assumes "printsOnly P m" and "\<And>x s s'. m s = (Inr x, s') \<Longrightarrow> printsOnly P (f x)"
  shows "printsOnly P (andThen m f)"
  unfolding printsOnly_def
proof
  fix s
  obtain r s' where ms: "m s = (r, s')" by (cases "m s")
  from assms(1) obtain ls where ls: "console (snd (m s)) = console s @ ls" "list_all P ls"
    unfolding printsOnly_def by blast
  show "\<exists>ks. console (snd (andThen m f s)) = console s @ ks \<and> list_all P ks"
  proof (cases r)
    case (Inl e)
    with ms ls have "console (snd (andThen m f s)) = console s @ ls \<and> list_all P ls"
      by (simp add: andThen_def)
    then show ?thesis by blast
  next
    case (Inr x)
    with ms assms(2) have "printsOnly P (f x)" by blast
    then obtain ks where ks: "console (snd (f x s')) = console s' @ ks" "list_all P ks"
      unfolding printsOnly_def by blast
    with ms ls Inr
    have "console (snd (andThen m f s)) = console s @ (ls @ ks) \<and> list_all P (ls @ ks)"
      by (simp add: andThen_def)
    then show ?thesis by blast
  qed
qed

lemma printsOnly_andThen [intro!]:
  assumes "printsOnly P m" and "\<And>x. printsOnly P (f x)"
  shows "printsOnly P (andThen m f)"
  using assms by (blast intro: printsOnly_andThen_reached)

lemma printsOnly_tryCatch [intro!]:
  assumes "printsOnly P m" and "\<And>e. printsOnly P (h e)"
  shows "printsOnly P (tryCatch m h)"
  unfolding printsOnly_def
proof
  fix s
  obtain r s' where ms: "m s = (r, s')" by (cases "m s")
  from assms(1) obtain ls where ls: "console (snd (m s)) = console s @ ls" "list_all P ls"
    unfolding printsOnly_def by blast
  show "\<exists>ks. console (snd (tryCatch m h s)) = console s @ ks \<and> list_all P ks"
  proof (cases r)
    case (Inl e)
    from assms(2) [of e] obtain ks where ks: "console (snd (h e s')) = console s' @ ks"
      "list_all P ks"
      unfolding printsOnly_def by blast
    with ms ls Inl
    have "console (snd (tryCatch m h s)) = console s @ (ls @ ks) \<and> list_all P (ls @ ks)"
      by (simp add: tryCatch_def)
    then show ?thesis by blast
  next
    case (Inr x)
    with ms ls have "console (snd (tryCatch m h s)) = console s @ ls \<and> list_all P ls"
      by (simp add: tryCatch_def)
    then show ?thesis by blast
  qed
qed

lemma printsOnly_forEach [intro!]:
  assumes "\<And>x. printsOnly P (body x)"
  shows "printsOnly P (forEach xs body)"
  by (induction xs) (auto intro: assms)

lemma projectLine_simps [simp]:
  "projectLine w (DryRunUpdateProject pageId pu)"
  "projectLine w (DryRunUpdateAction pageId au)"
  "projectLine w (FoundExistingProject title)"
  "projectLine w (DryRunCreateProject title)"
  "projectLine w (CreatedProject title)"
  "projectLine w (DryRunCreateIssue repo title)"
  "projectLine w (CreatedIssue n title)"
  "projectLine w (DryRunUpdateIssue issueId iu)"
  "projectLine w (DryRunAddIssueToProject issueId projectId)"
  "projectLine w (Processing name)"
  "projectLine w LinkedProjectNotFound"
  "projectLine w (SyncInfo dir why)"
  "projectLine w ProjectConflict"
  "projectLine w (SyncedWithProject n)"
  "projectLine w (ErrorSyncingProject e)"
  "projectLine w (SyncingActions name)"
  "projectLine w (LinkedIssueNotFound title)"
  "projectLine w (ActionDirection title dir)"
  "projectLine w ActionConflict"
  "projectLine w (UpdatedIssue n)"
  "projectLine w UpdatedActionFromGitHub"
  "projectLine w (CreatedAndLinked n title)"
  "projectLine w (ErrorSyncingAction title e)"
  by (simp_all add: projectLine_def)

lemma prints_updateProject: "printsOnly (projectLine w) (updateProject w pageId pu d)"
  by (auto simp: updateProject_def Let_def)

lemma prints_updateAction: "printsOnly (projectLine w) (updateAction w pageId au d)"
  by (auto simp: updateAction_def Let_def)

lemma prints_updateIssue: "printsOnly (projectLine w) (updateIssue w issueId iu d)"
  by (auto simp: updateIssue_def)

lemma prints_addIssueToProject:
  "printsOnly (projectLine w) (addIssueToProject w issueId projectId d)"
  by (auto simp: addIssueToProject_def)

lemma prints_createIssue:
  "printsOnly (projectLine w) (createIssue w repo title body projectId d)"
  by (auto simp: createIssue_def prints_addIssueToProject split: option.splits)

lemma prints_getOrCreateProject:
  "printsOnly (projectLine w) (getOrCreateProject w title description d)"
  by (auto simp: getOrCreateProject_def listProjects_def split: option.splits)

lemma prints_syncAction:
  "printsOnly (projectLine w) (syncAction rt w d githubProject repo githubIssues action)"
  by (auto simp: syncAction_def prints_updateIssue prints_updateAction prints_createIssue
      split: option.splits)

lemma prints_syncActionsLoop:
  "printsOnly (projectLine w) (syncActionsLoop rt w d githubProject repo githubIssues actions)"
  by (auto simp: syncActionsLoop_def prints_syncAction)

lemma getActions_reached:
  "getActions w projectId s = (Inr notionActions, s')
     \<Longrightarrow> \<exists>k projectFilter. databasesQueryActions w k projectFilter = Inr notionActions"
  by (auto simp: getActions_def send_def Let_def)

lemma getIssuesByProject_reached:
  "getIssuesByProject w projectId s = (Inr githubIssues, s')
     \<Longrightarrow> \<exists>k. projectItems w k projectId = Inr githubIssues"
  by (auto simp: getIssuesByProject_def send_def)

lemma prints_syncActions:
  "printsOnly (projectLine w) (syncActions rt w d notionProject githubProject repo)"
proof -
  have listed: "printsOnly (projectLine w)
     (andThen (getActions w (p_id notionProject)) (\<lambda>notionActions.
      andThen (getIssuesByProject w (gp_id githubProject)) (\<lambda>githubIssues.
      andThen (consoleLog (FoundActions (length notionActions) (length githubIssues))) (\<lambda>_.
      syncActionsLoop rt w d githubProject repo githubIssues notionActions))))"
  proof (rule printsOnly_andThen_reached)
  show "printsOnly (projectLine w) (getActions w (p_id notionProject))"
    by (simp add: getActions_def Let_def)
next
  fix notionActions s s'
  assume "getActions w (p_id notionProject) s = (Inr notionActions, s')"
  then obtain k projectFilter
    where acts: "databasesQueryActions w k projectFilter = Inr notionActions"
    by (blast dest: getActions_reached)
  show "printsOnly (projectLine w)
          (andThen (getIssuesByProject w (gp_id githubProject)) (\<lambda>githubIssues.
           andThen (consoleLog (FoundActions (length notionActions) (length githubIssues)))
             (\<lambda>_. syncActionsLoop rt w d githubProject repo githubIssues notionActions)))"
  proof (rule printsOnly_andThen_reached)
    show "printsOnly (projectLine w) (getIssuesByProject w (gp_id githubProject))"
      by (simp add: getIssuesByProject_def)
  next
    fix githubIssues t t'
    assume "getIssuesByProject w (gp_id githubProject) t = (Inr githubIssues, t')"
    then obtain k' where "projectItems w k' (gp_id githubProject) = Inr githubIssues"
      by (blast dest: getIssuesByProject_reached)
    with acts
    have "listingSizes w (FoundActions (length notionActions) (length githubIssues))"
      unfolding listingSizes_def by blast
    then have "projectLine w (FoundActions (length notionActions) (length githubIssues))"
      by (simp add: projectLine_def)
    then show "printsOnly (projectLine w)
            (andThen (consoleLog (FoundActions (length notionActions) (length githubIssues)))
               (\<lambda>_. syncActionsLoop rt w d githubProject repo githubIssues notionActions))"
      by (auto simp: prints_syncActionsLoop)
  qed
  qed
  show ?thesis
    unfolding syncActions_def
    by (rule printsOnly_andThen, rule printsOnly_consoleLog, simp, rule listed)
qed

lemma prints_resolveGitHubProject:
  "printsOnly (projectLine w) (resolveGitHubProject rt w d project)"
  by (auto simp: resolveGitHubProject_def listProjects_def prints_getOrCreateProject
      split: option.splits)

lemma prints_syncProject: "printsOnly (projectLine w) (syncProject rt w d repo project)"
  by (auto simp: syncProject_def prints_resolveGitHubProject prints_updateProject
      prints_syncActions split: option.splits)

lemma prints_syncProjectsLoop:
  "printsOnly (projectLine w) (syncProjectsLoop rt w d repo notionProjects)"
  by (auto simp: syncProjectsLoop_def prints_syncProject)

subsection \<open>One step of each loop\<close>

lemma syncProjectsLoop_step:
  "syncProjectsLoop rt w d repo (p # ps) s =
     (case syncProject rt w d repo p (s\<lparr>console := console s @ [Processing (p_name p)]\<rparr>) of
        (Inl e, s') \<Rightarrow>
          syncProjectsLoop rt w d repo ps (s'\<lparr>console := console s' @ [ErrorSyncingProject e]\<rparr>)
      | (Inr u, s') \<Rightarrow> syncProjectsLoop rt w d repo ps s')"
  by (simp add: syncProjectsLoop_def io_defs split: prod.splits sum.splits)

lemma syncActionsLoop_step:
  "syncActionsLoop rt w d gp repo issues (a # as) s =
     (case syncAction rt w d gp repo issues a s of
        (Inl e, s') \<Rightarrow>
          syncActionsLoop rt w d gp repo issues as
            (s'\<lparr>console := console s' @ [ErrorSyncingAction (a_title a) e]\<rparr>)
      | (Inr u, s') \<Rightarrow> syncActionsLoop rt w d gp repo issues as s')"
  by (simp add: syncActionsLoop_def io_defs split: prod.splits sum.splits)

subsection \<open>Conflicts\<close>

lemma resolve_conflict:
  assumes "truthy (p_githubProjectId p)"
    and "projectsV2 w (length (requests s)) = Inr allProjects"
    and "List.find (\<lambda>g. Some (gp_id g) = p_githubProjectId p) allProjects = Some gp"
    and "determineSyncDirection rt (p_updatedAt p) (gp_updatedAt gp) (p_lastSyncAt p) = Inr st"
    and "direction st = Conflict"
  shows "resolveGitHubProject rt w d p s =
           (Inr None, s\<lparr>requests := requests s @ [QueryProjectsV2],
                        console := console s @ [SyncInfo Conflict (reason st), ProjectConflict]\<rparr>)"
  using assms by (simp add: resolveGitHubProject_def listProjects_def io_defs)

lemma syncProjectsLoop_conflict:
  assumes "truthy (p_githubProjectId p)"
    and "projectsV2 w (length (requests s)) = Inr allProjects"
    and "List.find (\<lambda>g. Some (gp_id g) = p_githubProjectId p) allProjects = Some gp"
    and "determineSyncDirection rt (p_updatedAt p) (gp_updatedAt gp) (p_lastSyncAt p) = Inr st"
    and "direction st = Conflict"
  shows "syncProjectsLoop rt w d repo (p # ps) s =
           syncProjectsLoop rt w d repo ps
             (s\<lparr>requests := requests s @ [QueryProjectsV2],
                console := console s @ [Processing (p_name p), SyncInfo Conflict (reason st),
                                        ProjectConflict]\<rparr>)"
proof -
  let ?s = "s\<lparr>console := console s @ [Processing (p_name p)]\<rparr>"
  from assms(2) have "projectsV2 w (length (requests ?s)) = Inr allProjects" by simp
  from resolve_conflict [OF assms(1) this assms(3-5), of d]
  show ?thesis
    by (simp add: syncProjectsLoop_step syncProject_def andThen_def ok_def)
qed

lemma syncActionsLoop_conflict:
  assumes "truthy (a_githubIssueId a)"
    and "List.find (\<lambda>i. Some (gi_id i) = a_githubIssueId a) issues = Some gi"
    and "determineSyncDirection rt (a_updatedAt a) (gi_updatedAt gi) (a_lastSyncAt a) = Inr st"
    and "direction st = Conflict"
  shows "syncActionsLoop rt w d gp repo issues (a # as) s =
           syncActionsLoop rt w d gp repo issues as
             (s\<lparr>console := console s @ [ActionDirection (a_title a) Conflict, ActionConflict]\<rparr>)"
  using assms by (simp add: syncActionsLoop_step syncAction_def io_defs)

text \<open>
  \<^bold>\<open>C2.\<close> A linked project whose decision is a conflict costs the one read that found its
  board, and a linked action whose decision is a conflict costs no request at all: no
  write is sent for the pair, only console lines are added, and the loop goes on with
  the remaining projects or actions from that state.
\<close>

theorem conflict_sends_no_write:
  "(truthy (p_githubProjectId p)
    \<and> projectsV2 w (length (requests s)) = Inr allProjects
    \<and> List.find (\<lambda>g. Some (gp_id g) = p_githubProjectId p) allProjects = Some gp
    \<and> determineSyncDirection rt (p_updatedAt p) (gp_updatedAt gp) (p_lastSyncAt p) = Inr st
    \<and> direction st = Conflict
    \<longrightarrow> syncProjectsLoop rt w d repo (p # ps) s =
          syncProjectsLoop rt w d repo ps
            (s\<lparr>requests := requests s @ [QueryProjectsV2],
               console := console s @ [Processing (p_name p), SyncInfo Conflict (reason st),
                                       ProjectConflict]\<rparr>)
        \<and> writes (s\<lparr>requests := requests s @ [QueryProjectsV2],
               console := console s @ [Processing (p_name p), SyncInfo Conflict (reason st),
                                       ProjectConflict]\<rparr>) = writes s)
   \<and> (truthy (a_githubIssueId a)
    \<and> List.find (\<lambda>i. Some (gi_id i) = a_githubIssueId a) issues = Some gi
    \<and> determineSyncDirection rt (a_updatedAt a) (gi_updatedAt gi) (a_lastSyncAt a) = Inr st'
    \<and> direction st' = Conflict
    \<longrightarrow> syncActionsLoop rt w d gp' repo issues (a # as) s =
          syncActionsLoop rt w d gp' repo issues as
            (s\<lparr>console := console s @ [ActionDirection (a_title a) Conflict,
                                       ActionConflict]\<rparr>))"
proof (intro conjI impI)
  assume h: "truthy (p_githubProjectId p)
    \<and> projectsV2 w (length (requests s)) = Inr allProjects
    \<and> List.find (\<lambda>g. Some (gp_id g) = p_githubProjectId p) allProjects = Some gp
    \<and> determineSyncDirection rt (p_updatedAt p) (gp_updatedAt gp) (p_lastSyncAt p) = Inr st
    \<and> direction st = Conflict"
  then show "syncProjectsLoop rt w d repo (p # ps) s =
          syncProjectsLoop rt w d repo ps
            (s\<lparr>requests := requests s @ [QueryProjectsV2],
               console := console s @ [Processing (p_name p), SyncInfo Conflict (reason st),
                                       ProjectConflict]\<rparr>)"
    using syncProjectsLoop_conflict [of p w s allProjects gp rt st d repo ps] by blast
  show "writes (s\<lparr>requests := requests s @ [QueryProjectsV2],
               console := console s @ [Processing (p_name p), SyncInfo Conflict (reason st),
                                       ProjectConflict]\<rparr>) = writes s"
    by (simp add: writes_def)
next
  assume "truthy (a_githubIssueId a)
    \<and> List.find (\<lambda>i. Some (gi_id i) = a_githubIssueId a) issues = Some gi
    \<and> determineSyncDirection rt (a_updatedAt a) (gi_updatedAt gi) (a_lastSyncAt a) = Inr st'
    \<and> direction st' = Conflict"
  then show "syncActionsLoop rt w d gp' repo issues (a # as) s =
          syncActionsLoop rt w d gp' repo issues as
            (s\<lparr>console := console s @ [ActionDirection (a_title a) Conflict,
                                       ActionConflict]\<rparr>)"
    using syncActionsLoop_conflict [of a issues gi rt st' w d gp' repo as s] by blast
qed

text \<open>
  The linked project and the linked action, both changed on both sides: the loops go
  on with what is left, having sent no write.
\<close>

theorem conflict_sends_no_write_witness:
  "determineSyncDirection sampleRuntime (p_updatedAt linkedLaunchPlan)
       (gp_updatedAt launchBoard) (p_lastSyncAt linkedLaunchPlan) =
     Inr \<lparr>direction = Conflict,
          reason = ''Both updated since last sync (Notion: 2024-01-02T00:00:00.000Z, GitHub: 2024-01-03T00:00:00.000Z)''\<rparr>
   \<and> syncProjectsLoop sampleRuntime conflictWorld False ''site'' [linkedLaunchPlan, hiringPlan]
       initial =
     syncProjectsLoop sampleRuntime conflictWorld False ''site'' [hiringPlan]
       \<lparr>requests = [QueryProjectsV2],
        console = [Processing ''Launch Plan'',
                   SyncInfo Conflict ''Both updated since last sync (Notion: 2024-01-02T00:00:00.000Z, GitHub: 2024-01-03T00:00:00.000Z)'',
                   ProjectConflict]\<rparr>
   \<and> syncActionsLoop sampleRuntime quietWorld False launchBoard ''site'' [issue7]
       [linkedWriteCopy\<lparr>a_updatedAt := ''2024-01-03T00:00:00.000Z''\<rparr>] initial =
     (Inr (), \<lparr>requests = [],
               console = [ActionDirection ''Write copy'' Conflict, ActionConflict]\<rparr>)"
proof -
  let ?st = "\<lparr>direction = Conflict,
          reason = ''Both updated since last sync (Notion: 2024-01-02T00:00:00.000Z, GitHub: 2024-01-03T00:00:00.000Z)''\<rparr>"
  let ?a = "linkedWriteCopy\<lparr>a_updatedAt := ''2024-01-03T00:00:00.000Z''\<rparr>"
  let ?st' = "\<lparr>direction = Conflict,
          reason = ''Both updated since last sync (Notion: 2024-01-03T00:00:00.000Z, GitHub: 2024-01-03T00:00:00.000Z)''\<rparr>"
  have d1: "determineSyncDirection sampleRuntime (p_updatedAt linkedLaunchPlan)
       (gp_updatedAt launchBoard) (p_lastSyncAt linkedLaunchPlan) = Inr ?st"
    by (simp add: decision_defs sample_defs)
  have d2: "determineSyncDirection sampleRuntime (a_updatedAt ?a)
       (gi_updatedAt issue7) (a_lastSyncAt ?a) = Inr ?st'"
    by (simp add: decision_defs sample_defs)
  have hp: "truthy (p_githubProjectId linkedLaunchPlan)
    \<and> projectsV2 conflictWorld (length (requests initial)) = Inr [launchBoard]
    \<and> List.find (\<lambda>g. Some (gp_id g) = p_githubProjectId linkedLaunchPlan) [launchBoard]
        = Some launchBoard"
    by (simp add: sample_defs truthy_def)
  have ha: "truthy (a_githubIssueId ?a)
    \<and> List.find (\<lambda>i. Some (gi_id i) = a_githubIssueId ?a) [issue7] = Some issue7"
    by (simp add: sample_defs truthy_def)
  note inst = conflict_sends_no_write [of linkedLaunchPlan conflictWorld initial "[launchBoard]"
      launchBoard sampleRuntime ?st False "''site''" "[hiringPlan]" ?a "[issue7]" issue7 ?st'
      launchBoard "[]"]
  note inst' = conflict_sends_no_write [of linkedLaunchPlan quietWorld initial "[launchBoard]"
      launchBoard sampleRuntime ?st False "''site''" "[hiringPlan]" ?a "[issue7]" issue7 ?st'
      launchBoard "[]"]
  from inst d1 hp
  have p: "syncProjectsLoop sampleRuntime conflictWorld False ''site''
             [linkedLaunchPlan, hiringPlan] initial =
     syncProjectsLoop sampleRuntime conflictWorld False ''site'' [hiringPlan]
       (initial\<lparr>requests := requests initial @ [QueryProjectsV2],
        console := console initial @ [Processing (p_name linkedLaunchPlan),
                   SyncInfo Conflict (reason ?st), ProjectConflict]\<rparr>)"
    by simp
  from inst' d2 ha
  have a: "syncActionsLoop sampleRuntime quietWorld False launchBoard ''site'' [issue7] [?a]
             initial =
     syncActionsLoop sampleRuntime quietWorld False launchBoard ''site'' [issue7] []
       (initial\<lparr>console := console initial @ [ActionDirection (a_title ?a) Conflict,
                                       ActionConflict]\<rparr>)"
    by simp
  from p have p': "syncProjectsLoop sampleRuntime conflictWorld False ''site''
       [linkedLaunchPlan, hiringPlan] initial =
     syncProjectsLoop sampleRuntime conflictWorld False ''site'' [hiringPlan]
       \<lparr>requests = [QueryProjectsV2],
        console = [Processing ''Launch Plan'',
                   SyncInfo Conflict ''Both updated since last sync (Notion: 2024-01-02T00:00:00.000Z, GitHub: 2024-01-03T00:00:00.000Z)'',
                   ProjectConflict]\<rparr>"
    by (simp add: initial_def linkedLaunchPlan_def launchPlan_def)
  from a have a': "syncActionsLoop sampleRuntime quietWorld False launchBoard ''site'' [issue7]
       [?a] initial =
     (Inr (), \<lparr>requests = [],
               console = [ActionDirection ''Write copy'' Conflict, ActionConflict]\<rparr>)"
    by (simp add: initial_def linkedWriteCopy_def writeCopy_def syncActionsLoop_def ok_def)
  from d1 p' a' show ?thesis by simp
qed

subsection \<open>Dry run\<close>

lemma getOrCreateProject_dry_missing:
  assumes "projectsV2 w (length (requests s)) = Inr existing"
    and "List.find (\<lambda>p. gp_title p = title) existing = None"
  shows "getOrCreateProject w title description True s =
           (Inr \<lparr>gp_id = ''dry-run-id'', gp_number = 0, gp_title = title,
                 gp_url = ''https://github.com/dry-run'', gp_shortDescription = description,
                 gp_updatedAt = clock w (Suc (length (requests s)))\<rparr>,
            s\<lparr>requests := requests s @ [QueryProjectsV2],
              console := console s @ [DryRunCreateProject title]\<rparr>)"
  using assms by (simp add: getOrCreateProject_def listProjects_def io_defs)

lemma run_dry_completes:
  assumes "databasesQueryProjects w (length (requests s)) = Inr notionProjects"
  shows "fst (run rt w True repo s) = Inr ()"
  using assms by (simp add: run_result)

lemma run_dry_writes: "writes (snd (run rt w True repo s)) = writes s"
  using noWrite_run [of rt w repo] by (simp add: sendsNoWrite_def)

text \<open>
  \<^bold>\<open>C4.\<close> With \<open>dryRun\<close> set, \<open>updateProject\<close>, \<open>updateAction\<close>, \<open>updateIssue\<close> and
  \<open>addIssueToProject\<close> return at once having only logged; \<open>createIssue\<close> returns the
  synthetic issue; \<open>getOrCreateProject\<close> reads the list of projects and, when no title
  matches, returns the synthetic project instead of creating one. A whole dry run sends
  no write, from any state and against any stores, and it returns normally as soon as
  the listing of the Notion projects succeeded.
\<close>

theorem dry_run_sends_no_write:
  "updateProject w pageId pu True s =
     (Inr (), s\<lparr>console := console s @ [DryRunUpdateProject pageId pu]\<rparr>)
   \<and> updateAction w pageId au True s =
     (Inr (), s\<lparr>console := console s @ [DryRunUpdateAction pageId au]\<rparr>)
   \<and> updateIssue w issueId iu True s =
     (Inr (), s\<lparr>console := console s @ [DryRunUpdateIssue issueId iu]\<rparr>)
   \<and> addIssueToProject w issueId projectId True s =
     (Inr (), s\<lparr>console := console s @ [DryRunAddIssueToProject issueId projectId]\<rparr>)
   \<and> createIssue w repo title body optProjectId True s =
     (Inr \<lparr>gi_id = ''dry-run-issue-id'', gi_number = 0, gi_title = title, gi_body = body,
           gi_state = OPEN, gi_url = ''https://github.com/dry-run'',
           gi_updatedAt = clock w (length (requests s))\<rparr>,
      s\<lparr>console := console s @ [DryRunCreateIssue repo title]\<rparr>)
   \<and> (projectsV2 w (length (requests s)) = Inr existing
      \<and> List.find (\<lambda>p. gp_title p = title) existing = None
      \<longrightarrow> getOrCreateProject w title description True s =
           (Inr \<lparr>gp_id = ''dry-run-id'', gp_number = 0, gp_title = title,
                 gp_url = ''https://github.com/dry-run'', gp_shortDescription = description,
                 gp_updatedAt = clock w (Suc (length (requests s)))\<rparr>,
            s\<lparr>requests := requests s @ [QueryProjectsV2],
              console := console s @ [DryRunCreateProject title]\<rparr>))
   \<and> writes (snd (getOrCreateProject w title description True s)) = writes s
   \<and> writes (snd (run rt w True repo s)) = writes s
   \<and> (databasesQueryProjects w (length (requests s)) = Inr notionProjects
      \<longrightarrow> fst (run rt w True repo s) = Inr ())"
proof (intro conjI impI)
  show "writes (snd (getOrCreateProject w title description True s)) = writes s"
    using noWrite_getOrCreateProject [of w title description] by (simp add: sendsNoWrite_def)
  show "writes (snd (run rt w True repo s)) = writes s"
    by (rule run_dry_writes)
  show "createIssue w repo title body optProjectId True s =
     (Inr \<lparr>gi_id = ''dry-run-issue-id'', gi_number = 0, gi_title = title, gi_body = body,
           gi_state = OPEN, gi_url = ''https://github.com/dry-run'',
           gi_updatedAt = clock w (length (requests s))\<rparr>,
      s\<lparr>console := console s @ [DryRunCreateIssue repo title]\<rparr>)"
    by (simp add: createIssue_def io_defs)
next
  assume "projectsV2 w (length (requests s)) = Inr existing
      \<and> List.find (\<lambda>p. gp_title p = title) existing = None"
  then show "getOrCreateProject w title description True s =
           (Inr \<lparr>gp_id = ''dry-run-id'', gp_number = 0, gp_title = title,
                 gp_url = ''https://github.com/dry-run'', gp_shortDescription = description,
                 gp_updatedAt = clock w (Suc (length (requests s)))\<rparr>,
            s\<lparr>requests := requests s @ [QueryProjectsV2],
              console := console s @ [DryRunCreateProject title]\<rparr>)"
    by (simp add: getOrCreateProject_dry_missing)
next
  assume "databasesQueryProjects w (length (requests s)) = Inr notionProjects"
  then show "fst (run rt w True repo s) = Inr ()"
    by (rule run_dry_completes)
qed (simp_all add: updateProject_def updateAction_def updateIssue_def addIssueToProject_def
    consoleLog_def)

text \<open>
  A dry run over the unlinked project and its unlinked action: it completes, and the
  four requests it sent are reads. Against empty stores the project it would create is
  the synthetic one.
\<close>

theorem dry_run_sends_no_write_witness:
  "projectsV2 quietWorld (length (requests initial)) = Inr []
   \<and> getOrCreateProject quietWorld ''Launch Plan'' (Some ''Q1 launch'') True initial =
       (Inr \<lparr>gp_id = ''dry-run-id'', gp_number = 0, gp_title = ''Launch Plan'',
             gp_url = ''https://github.com/dry-run'', gp_shortDescription = Some ''Q1 launch'',
             gp_updatedAt = ''2024-01-03T00:00:00.000Z''\<rparr>,
        \<lparr>requests = [QueryProjectsV2], console = [DryRunCreateProject ''Launch Plan'']\<rparr>)
   \<and> databasesQueryProjects firstRunWorld (length (requests initial)) = Inr [launchPlan]
   \<and> fst (run sampleRuntime firstRunWorld True ''site'' initial) = Inr ()
   \<and> writes (snd (run sampleRuntime firstRunWorld True ''site'' initial)) = []
   \<and> requests (snd (run sampleRuntime firstRunWorld True ''site'' initial)) =
       [DatabasesQueryProjects, QueryProjectsV2, DatabasesQueryActions (Some ''page-1''),
        QueryProjectItems ''PVT_1'']"
proof -
  have h1: "projectsV2 quietWorld (length (requests initial)) = Inr []
      \<and> List.find (\<lambda>p. gp_title p = ''Launch Plan'') [] = None"
    by (simp add: quietWorld_def)
  have h2: "databasesQueryProjects firstRunWorld (length (requests initial)) = Inr [launchPlan]"
    by (simp add: firstRunWorld_def quietWorld_def)
  from dry_run_sends_no_write [where w = quietWorld and s = initial
      and title = "''Launch Plan''" and existing = "[]" and description = "Some ''Q1 launch''"] h1
  have g: "getOrCreateProject quietWorld ''Launch Plan'' (Some ''Q1 launch'') True initial =
           (Inr \<lparr>gp_id = ''dry-run-id'', gp_number = 0, gp_title = ''Launch Plan'',
                 gp_url = ''https://github.com/dry-run'',
                 gp_shortDescription = Some ''Q1 launch'',
                 gp_updatedAt = clock quietWorld (Suc (length (requests initial)))\<rparr>,
            initial\<lparr>requests := requests initial @ [QueryProjectsV2],
              console := console initial @ [DryRunCreateProject ''Launch Plan'']\<rparr>)"
    by blast
  from dry_run_sends_no_write [where w = firstRunWorld and s = initial and rt = sampleRuntime
      and repo = "''site''" and notionProjects = "[launchPlan]"] h2
  have r: "fst (run sampleRuntime firstRunWorld True ''site'' initial) = Inr ()"
    and w: "writes (snd (run sampleRuntime firstRunWorld True ''site'' initial)) = writes initial"
    by blast+
  have q: "requests (snd (run sampleRuntime firstRunWorld True ''site'' initial)) =
       [DatabasesQueryProjects, QueryProjectsV2, DatabasesQueryActions (Some ''page-1''),
        QueryProjectItems ''PVT_1'']"
    by (simp add: io_defs client_defs engine_defs sample_defs)
  from g have g': "getOrCreateProject quietWorld ''Launch Plan'' (Some ''Q1 launch'') True initial =
       (Inr \<lparr>gp_id = ''dry-run-id'', gp_number = 0, gp_title = ''Launch Plan'',
             gp_url = ''https://github.com/dry-run'', gp_shortDescription = Some ''Q1 launch'',
             gp_updatedAt = ''2024-01-03T00:00:00.000Z''\<rparr>,
        \<lparr>requests = [QueryProjectsV2], console = [DryRunCreateProject ''Launch Plan'']\<rparr>)"
    by (simp add: initial_def quietWorld_def)
  from w have w': "writes (snd (run sampleRuntime firstRunWorld True ''site'' initial)) = []"
    by (simp add: initial_def writes_def)
  from h1 h2 g' r w' q show ?thesis by simp
qed

subsection \<open>Failures\<close>

lemma syncProjectsLoop_result: "fst (syncProjectsLoop rt w d repo ps s) = Inr ()"
  by (rule neverThrows_unit [OF neverThrows_syncProjectsLoop])

lemma syncActionsLoop_result: "fst (syncActionsLoop rt w d gp repo issues as s) = Inr ()"
  by (rule neverThrows_unit [OF neverThrows_syncActionsLoop])

text \<open>
  \<^bold>\<open>C5\<close>, as stated, fails on the identifier: the line logged for a project that failed
  carries the error alone. Here GitHub times out for two projects; the two error lines
  are the same, neither page id is on the console, and the run completes.
\<close>

theorem failure_log_counterexample:
  "run sampleRuntime unreachableGitHub False ''site'' initial =
     (Inr (),
      \<lparr>requests = [DatabasesQueryProjects, QueryProjectsV2, QueryProjectsV2],
       console =
         [Banner, BannerRule, RunMode False, Repository ''site'',
          SyncingProjects, FoundNotionProjects 2,
          Processing ''Launch Plan'', ErrorSyncingProject (ApiError ''timeout''),
          Processing ''Hiring Plan'', ErrorSyncingProject (ApiError ''timeout''),
          SyncCompleted]\<rparr>)
   \<and> p_id launchPlan = ''page-1'' \<and> p_id hiringPlan = ''page-2''"
  by (simp add: io_defs client_defs engine_defs sample_defs)

text \<open>
  \<^bold>\<open>C5\<close>, amended. An exception thrown while a project is synced (its actions' listing
  included) is caught by the loop over the projects: the line \<open>Error syncing project\<close>
  with the error is added after the project's \<open>Processing\<close> line, and the loop goes on
  with the remaining projects. An exception thrown while an action is synced is caught
  by the loop over the actions: the line \<open>Error syncing action\<close> with the action's title
  and the error is added, and the loop goes on with the remaining actions. Neither
  loop ever throws, and \<open>syncProjects\<close> and \<open>run\<close> throw exactly when the listing of the
  Notion projects does, with its error.
\<close>

theorem failures_are_isolated:
  "(syncProject rt w d repo p (s\<lparr>console := console s @ [Processing (p_name p)]\<rparr>) = (Inl e, s')
      \<longrightarrow> syncProjectsLoop rt w d repo (p # ps) s =
           syncProjectsLoop rt w d repo ps
             (s'\<lparr>console := console s' @ [ErrorSyncingProject e]\<rparr>))
   \<and> (syncAction rt w d gp repo issues a s = (Inl e, s')
      \<longrightarrow> syncActionsLoop rt w d gp repo issues (a # as) s =
           syncActionsLoop rt w d gp repo issues as
             (s'\<lparr>console := console s' @ [ErrorSyncingAction (a_title a) e]\<rparr>))
   \<and> fst (syncProjectsLoop rt w d repo ps s) = Inr ()
   \<and> fst (syncActionsLoop rt w d gp repo issues as s) = Inr ()
   \<and> fst (syncProjects rt w d repo s) =
       (case databasesQueryProjects w (length (requests s)) of
          Inl err \<Rightarrow> Inl err | Inr notionProjects \<Rightarrow> Inr ())
   \<and> fst (run rt w d repo s) =
       (case databasesQueryProjects w (length (requests s)) of
          Inl err \<Rightarrow> Inl err | Inr notionProjects \<Rightarrow> Inr ())"
proof (intro conjI impI)
  assume "syncProject rt w d repo p (s\<lparr>console := console s @ [Processing (p_name p)]\<rparr>)
            = (Inl e, s')"
  then show "syncProjectsLoop rt w d repo (p # ps) s =
           syncProjectsLoop rt w d repo ps
             (s'\<lparr>console := console s' @ [ErrorSyncingProject e]\<rparr>)"
    by (simp add: syncProjectsLoop_step)
next
  assume "syncAction rt w d gp repo issues a s = (Inl e, s')"
  then show "syncActionsLoop rt w d gp repo issues (a # as) s =
           syncActionsLoop rt w d gp repo issues as
             (s'\<lparr>console := console s' @ [ErrorSyncingAction (a_title a) e]\<rparr>)"
    by (simp add: syncActionsLoop_step)
qed (simp_all only: syncProjectsLoop_result syncActionsLoop_result syncProjects_result run_result)

text \<open>
  GitHub times out while the first project is synced, and does not know the repository
  while the action is synced: each loop logs the error and goes on.
\<close>

theorem failures_are_isolated_witness:
  "syncProject sampleRuntime unreachableGitHub False ''site'' launchPlan
       (initial\<lparr>console := console initial @ [Processing (p_name launchPlan)]\<rparr>) =
     (Inl (ApiError ''timeout''),
      \<lparr>requests = [QueryProjectsV2], console = [Processing ''Launch Plan'']\<rparr>)
   \<and> syncProjectsLoop sampleRuntime unreachableGitHub False ''site'' [launchPlan, hiringPlan]
       initial =
     syncProjectsLoop sampleRuntime unreachableGitHub False ''site'' [hiringPlan]
       \<lparr>requests = [QueryProjectsV2],
        console = [Processing ''Launch Plan'', ErrorSyncingProject (ApiError ''timeout'')]\<rparr>
   \<and> syncAction sampleRuntime unknownRepository False launchBoard ''site'' [] writeCopy initial =
     (Inl (ApiError ''Could not resolve to a Repository''),
      \<lparr>requests = [QueryRepositoryId ''site''], console = []\<rparr>)
   \<and> syncActionsLoop sampleRuntime unknownRepository False launchBoard ''site'' [] [writeCopy]
       initial =
     (Inr (),
      \<lparr>requests = [QueryRepositoryId ''site''],
       console = [ErrorSyncingAction ''Write copy''
                    (ApiError ''Could not resolve to a Repository'')]\<rparr>)"
proof -
  let ?s1 = "\<lparr>requests = [QueryProjectsV2], console = [Processing ''Launch Plan'']\<rparr>"
  let ?s2 = "\<lparr>requests = [QueryRepositoryId ''site''], console = []\<rparr>"
  have hp: "syncProject sampleRuntime unreachableGitHub False ''site'' launchPlan
       (initial\<lparr>console := console initial @ [Processing (p_name launchPlan)]\<rparr>) =
     (Inl (ApiError ''timeout''), ?s1)"
    by (simp add: io_defs client_defs engine_defs sample_defs)
  have ha: "syncAction sampleRuntime unknownRepository False launchBoard ''site'' [] writeCopy
       initial = (Inl (ApiError ''Could not resolve to a Repository''), ?s2)"
    by (simp add: io_defs client_defs engine_defs sample_defs)
  from failures_are_isolated [where rt = sampleRuntime and w = unreachableGitHub and d = False
      and repo = "''site''" and p = launchPlan and s = initial and e = "ApiError ''timeout''"
      and s' = ?s1 and ps = "[hiringPlan]"] hp
  have p: "syncProjectsLoop sampleRuntime unreachableGitHub False ''site''
       [launchPlan, hiringPlan] initial =
     syncProjectsLoop sampleRuntime unreachableGitHub False ''site'' [hiringPlan]
       (?s1\<lparr>console := console ?s1 @ [ErrorSyncingProject (ApiError ''timeout'')]\<rparr>)"
    by blast
  from failures_are_isolated [where rt = sampleRuntime and w = unknownRepository and d = False
      and repo = "''site''" and gp = launchBoard and issues = "[]" and a = writeCopy
      and s = initial and e = "ApiError ''Could not resolve to a Repository''" and s' = ?s2
      and as = "[]"] ha
  have a: "syncActionsLoop sampleRuntime unknownRepository False launchBoard ''site'' []
       [writeCopy] initial =
     syncActionsLoop sampleRuntime unknownRepository False launchBoard ''site'' [] []
       (?s2\<lparr>console := console ?s2 @ [ErrorSyncingAction (a_title writeCopy)
          (ApiError ''Could not resolve to a Repository'')]\<rparr>)"
    by blast
  from p have p': "syncProjectsLoop sampleRuntime unreachableGitHub False ''site''
       [launchPlan, hiringPlan] initial =
     syncProjectsLoop sampleRuntime unreachableGitHub False ''site'' [hiringPlan]
       \<lparr>requests = [QueryProjectsV2],
        console = [Processing ''Launch Plan'', ErrorSyncingProject (ApiError ''timeout'')]\<rparr>"
    by simp
  from a have a': "syncActionsLoop sampleRuntime unknownRepository False launchBoard ''site'' []
       [writeCopy] initial =
     (Inr (),
      \<lparr>requests = [QueryRepositoryId ''site''],
       console = [ErrorSyncingAction ''Write copy''
                    (ApiError ''Could not resolve to a Repository'')]\<rparr>)"
    by (simp add: syncActionsLoop_def ok_def writeCopy_def)
  from hp ha p' a' show ?thesis by simp
qed

subsection \<open>Stale links\<close>

lemma syncProject_unlinked:
  assumes "\<not> truthy (p_githubProjectId p)"
  shows "syncProject rt w d repo p s =
           andThen (getOrCreateProject w (p_name p) (p_description p) d) (\<lambda>githubProject.
           andThen (updateProject w (p_id p)
                      \<lparr>pu_githubProjectId = Some (gp_id githubProject),
                       pu_githubProjectUrl = Some (gp_url githubProject),
                       pu_status = None\<rparr> d) (\<lambda>_.
           andThen (consoleLog (SyncedWithProject (gp_number githubProject))) (\<lambda>_.
           syncActions rt w d p githubProject repo))) s"
  using assms
  by (simp add: syncProject_def resolveGitHubProject_def andThen_def ok_def
      split: prod.splits sum.splits)

lemma syncProject_stale_link:
  assumes "truthy (p_githubProjectId p)"
    and "projectsV2 w (length (requests s)) = Inr allProjects"
    and "List.find (\<lambda>g. Some (gp_id g) = p_githubProjectId p) allProjects = None"
  shows "syncProject rt w d repo p s =
           andThen (getOrCreateProject w (p_name p) (p_description p) d) (\<lambda>githubProject.
           andThen (updateProject w (p_id p)
                      \<lparr>pu_githubProjectId = Some (gp_id githubProject),
                       pu_githubProjectUrl = Some (gp_url githubProject),
                       pu_status = None\<rparr> d) (\<lambda>_.
           andThen (consoleLog (SyncedWithProject (gp_number githubProject))) (\<lambda>_.
           syncActions rt w d p githubProject repo)))
             (s\<lparr>requests := requests s @ [QueryProjectsV2],
                console := console s @ [LinkedProjectNotFound]\<rparr>)"
proof -
  let ?s = "s\<lparr>requests := requests s @ [QueryProjectsV2],
                console := console s @ [LinkedProjectNotFound]\<rparr>"
  have "resolveGitHubProject rt w d p s =
          andThen (getOrCreateProject w (p_name p) (p_description p) d)
            (\<lambda>githubProject. ok (Some githubProject)) ?s"
    using assms by (simp add: resolveGitHubProject_def listProjects_def send_def consoleLog_def
        andThen_def [of "\<lambda>s. (projectsV2 w (length (requests s)), _ s)"]
        andThen_def [of "\<lambda>s. (Inr (), _ s)"])
  then show ?thesis
    by (simp add: syncProject_def andThen_def ok_def split: prod.splits sum.splits)
qed

lemma syncProject_stale_as_unlinked:
  assumes "truthy (p_githubProjectId p)"
    and "projectsV2 w (length (requests s)) = Inr allProjects"
    and "List.find (\<lambda>g. Some (gp_id g) = p_githubProjectId p) allProjects = None"
  shows "syncProject rt w d repo p s =
           syncProject rt w d repo (p\<lparr>p_githubProjectId := None\<rparr>)
             (s\<lparr>requests := requests s @ [QueryProjectsV2],
                console := console s @ [LinkedProjectNotFound]\<rparr>)"
proof -
  have actions: "syncActions rt w d (p\<lparr>p_githubProjectId := None\<rparr>) g repo
      = syncActions rt w d p g repo" for g
    by (simp add: syncActions_def)
  have "\<not> truthy (p_githubProjectId (p\<lparr>p_githubProjectId := None\<rparr>))"
    by (simp add: truthy_def)
  from syncProject_unlinked [OF this] syncProject_stale_link [OF assms]
  show ?thesis by (simp add: actions)
qed

lemma getOrCreateProject_match:
  assumes "projectsV2 w (length (requests s)) = Inr existing"
    and "List.find (\<lambda>g. gp_title g = title) existing = Some found"
  shows "getOrCreateProject w title description d s =
           (Inr found, s\<lparr>requests := requests s @ [QueryProjectsV2],
                         console := console s @ [FoundExistingProject title]\<rparr>)"
  using assms by (simp add: getOrCreateProject_def listProjects_def io_defs)

lemma getOrCreateProject_create:
  assumes "projectsV2 w (length (requests s)) = Inr existing"
    and "List.find (\<lambda>g. gp_title g = title) existing = None"
    and "nodeId w (Suc (length (requests s))) QueryOrganizationId = Inr ownerId"
  shows "getOrCreateProject w title description False s =
           (case createProjectV2 w (Suc (Suc (length (requests s)))) ownerId title description of
              Inl e \<Rightarrow>
                (Inl e, s\<lparr>requests := requests s @ [QueryProjectsV2, QueryOrganizationId,
                             MutationCreateProjectV2 ownerId title description]\<rparr>)
            | Inr created \<Rightarrow>
                (Inr created,
                 s\<lparr>requests := requests s @ [QueryProjectsV2, QueryOrganizationId,
                             MutationCreateProjectV2 ownerId title description],
                   console := console s @ [CreatedProject title]\<rparr>))"
  using assms by (simp add: getOrCreateProject_def listProjects_def io_defs split: sum.splits)

lemma updateProject_live:
  "updateProject w pageId pu False s =
     (mutation w (length (requests s))
        (PagesUpdate pageId
           (whenSet ''GitHub Project ID'' RichText (pu_githubProjectId pu)
            @ whenSet ''GitHub Project URL'' UrlValue (pu_githubProjectUrl pu)
            @ whenSet ''Status'' SelectName (pu_status pu)
            @ [(''Last Sync'', DateStart (clock w (length (requests s))))])),
      s\<lparr>requests := requests s @
           [PagesUpdate pageId
              (whenSet ''GitHub Project ID'' RichText (pu_githubProjectId pu)
               @ whenSet ''GitHub Project URL'' UrlValue (pu_githubProjectUrl pu)
               @ whenSet ''Status'' SelectName (pu_status pu)
               @ [(''Last Sync'', DateStart (clock w (length (requests s))))])]\<rparr>)"
  by (simp add: updateProject_def io_defs Let_def)

lemma syncProject_stale_match:
  assumes "truthy (p_githubProjectId p)"
    and "projectsV2 w (length (requests s)) = Inr allProjects"
    and "List.find (\<lambda>g. Some (gp_id g) = p_githubProjectId p) allProjects = None"
    and "projectsV2 w (Suc (length (requests s))) = Inr existing"
    and "List.find (\<lambda>g. gp_title g = p_name p) existing = Some found"
  shows "syncProject rt w d repo p s =
           andThen (updateProject w (p_id p)
                      \<lparr>pu_githubProjectId = Some (gp_id found),
                       pu_githubProjectUrl = Some (gp_url found),
                       pu_status = None\<rparr> d) (\<lambda>_.
           andThen (consoleLog (SyncedWithProject (gp_number found))) (\<lambda>_.
           syncActions rt w d p found repo))
             (s\<lparr>requests := requests s @ [QueryProjectsV2, QueryProjectsV2],
                console := console s @ [LinkedProjectNotFound,
                                        FoundExistingProject (p_name p)]\<rparr>)"
proof -
  let ?s = "s\<lparr>requests := requests s @ [QueryProjectsV2],
                console := console s @ [LinkedProjectNotFound]\<rparr>"
  from assms(4) have "projectsV2 w (length (requests ?s)) = Inr existing" by simp
  from getOrCreateProject_match [OF this assms(5), of "p_description p" d]
  show ?thesis
    by (simp add: syncProject_stale_link [OF assms(1-3)]
        andThen_def [of "getOrCreateProject w (p_name p) (p_description p) d"])
qed

lemma syncProject_stale_create:
  assumes "truthy (p_githubProjectId p)"
    and "projectsV2 w (length (requests s)) = Inr allProjects"
    and "List.find (\<lambda>g. Some (gp_id g) = p_githubProjectId p) allProjects = None"
    and "projectsV2 w (Suc (length (requests s))) = Inr existing"
    and "List.find (\<lambda>g. gp_title g = p_name p) existing = None"
    and "nodeId w (Suc (Suc (length (requests s)))) QueryOrganizationId = Inr ownerId"
    and "createProjectV2 w (Suc (Suc (Suc (length (requests s))))) ownerId (p_name p)
           (p_description p) = Inr created"
  shows "syncProject rt w False repo p s =
           andThen (updateProject w (p_id p)
                      \<lparr>pu_githubProjectId = Some (gp_id created),
                       pu_githubProjectUrl = Some (gp_url created),
                       pu_status = None\<rparr> False) (\<lambda>_.
           andThen (consoleLog (SyncedWithProject (gp_number created))) (\<lambda>_.
           syncActions rt w False p created repo))
             (s\<lparr>requests := requests s @ [QueryProjectsV2, QueryProjectsV2,
                  QueryOrganizationId,
                  MutationCreateProjectV2 ownerId (p_name p) (p_description p)],
                console := console s @ [LinkedProjectNotFound, CreatedProject (p_name p)]\<rparr>)"
proof -
  let ?s = "s\<lparr>requests := requests s @ [QueryProjectsV2],
                console := console s @ [LinkedProjectNotFound]\<rparr>"
  from assms(4) have l: "projectsV2 w (length (requests ?s)) = Inr existing" by simp
  from assms(6) have o: "nodeId w (Suc (length (requests ?s))) QueryOrganizationId = Inr ownerId"
    by simp
  from getOrCreateProject_create [OF l assms(5) o, of "p_description p"] assms(7)
  show ?thesis
    by (simp add: syncProject_stale_link [OF assms(1-3)]
        andThen_def [of "getOrCreateProject w (p_name p) (p_description p) False"])
qed

lemma syncAction_stale_link:
  assumes "truthy (a_githubIssueId a)"
    and "List.find (\<lambda>i. Some (gi_id i) = a_githubIssueId a) issues = None"
  shows "syncAction rt w d gp repo issues a s =
           (Inr (), s\<lparr>console := console s @ [LinkedIssueNotFound (a_title a)]\<rparr>)"
  using assms by (simp add: syncAction_def consoleLog_def)

text \<open>
  \<^bold>\<open>C8\<close>, as stated, fails for actions: an action whose stored issue id is not among the
  project's issues is logged and skipped. No issue is created and the action is not
  written.
\<close>

theorem stale_action_link_counterexample:
  "a_githubIssueId linkedWriteCopy = Some ''I_7''
   \<and> syncAction sampleRuntime quietWorld False launchBoard ''site'' [] linkedWriteCopy initial =
       (Inr (), \<lparr>requests = [], console = [LinkedIssueNotFound ''Write copy'']\<rparr>)"
  by (simp add: io_defs client_defs engine_defs sample_defs)

text \<open>
  \<^bold>\<open>C8\<close>, amended. For a project whose stored GitHub project id is not in the list of
  projects, the engine prints the warning \<open>Linked GitHub project not found, creating new
  one\<close> and then does what it does for the same project without a stored id: it calls
  \<open>getOrCreateProject\<close> with the project's name and description, writes the id and url
  of the project it got back to the Notion page with \<open>updateProject\<close>, and syncs the
  actions against that project. \<open>getOrCreateProject\<close> lists the projects again: when one
  has exactly the name as title it is taken and nothing is created; otherwise, live, a
  project of that name is created. Live, \<open>updateProject\<close> sends one \<open>pages.update\<close> with
  the id, the url and the stamp. An action whose stored issue id is not among the
  project's issues gets the warning \<open>Linked GitHub issue not found\<close> and nothing else:
  no request, no creation, and the loop moves on.
\<close>

theorem stale_link_handling:
  "(truthy (p_githubProjectId p)
    \<and> projectsV2 w (length (requests s)) = Inr allProjects
    \<and> List.find (\<lambda>g. Some (gp_id g) = p_githubProjectId p) allProjects = None
    \<longrightarrow> syncProject rt w d repo p s =
           andThen (getOrCreateProject w (p_name p) (p_description p) d) (\<lambda>githubProject.
           andThen (updateProject w (p_id p)
                      \<lparr>pu_githubProjectId = Some (gp_id githubProject),
                       pu_githubProjectUrl = Some (gp_url githubProject),
                       pu_status = None\<rparr> d) (\<lambda>_.
           andThen (consoleLog (SyncedWithProject (gp_number githubProject))) (\<lambda>_.
           syncActions rt w d p githubProject repo)))
             (s\<lparr>requests := requests s @ [QueryProjectsV2],
                console := console s @ [LinkedProjectNotFound]\<rparr>)
        \<and> syncProject rt w d repo p s =
           syncProject rt w d repo (p\<lparr>p_githubProjectId := None\<rparr>)
             (s\<lparr>requests := requests s @ [QueryProjectsV2],
                console := console s @ [LinkedProjectNotFound]\<rparr>))
   \<and> (\<not> truthy (p_githubProjectId p)
    \<longrightarrow> syncProject rt w d repo p s =
           andThen (getOrCreateProject w (p_name p) (p_description p) d) (\<lambda>githubProject.
           andThen (updateProject w (p_id p)
                      \<lparr>pu_githubProjectId = Some (gp_id githubProject),
                       pu_githubProjectUrl = Some (gp_url githubProject),
                       pu_status = None\<rparr> d) (\<lambda>_.
           andThen (consoleLog (SyncedWithProject (gp_number githubProject))) (\<lambda>_.
           syncActions rt w d p githubProject repo))) s)
   \<and> (truthy (p_githubProjectId p)
    \<and> projectsV2 w (length (requests s)) = Inr allProjects
    \<and> List.find (\<lambda>g. Some (gp_id g) = p_githubProjectId p) allProjects = None
    \<and> projectsV2 w (Suc (length (requests s))) = Inr listedAgain
    \<and> List.find (\<lambda>g. gp_title g = p_name p) listedAgain = Some matched
    \<longrightarrow> syncProject rt w d repo p s =
           andThen (updateProject w (p_id p)
                      \<lparr>pu_githubProjectId = Some (gp_id matched),
                       pu_githubProjectUrl = Some (gp_url matched),
                       pu_status = None\<rparr> d) (\<lambda>_.
           andThen (consoleLog (SyncedWithProject (gp_number matched))) (\<lambda>_.
           syncActions rt w d p matched repo))
             (s\<lparr>requests := requests s @ [QueryProjectsV2, QueryProjectsV2],
                console := console s @ [LinkedProjectNotFound,
                                        FoundExistingProject (p_name p)]\<rparr>))
   \<and> (truthy (p_githubProjectId p)
    \<and> projectsV2 w (length (requests s)) = Inr allProjects
    \<and> List.find (\<lambda>g. Some (gp_id g) = p_githubProjectId p) allProjects = None
    \<and> projectsV2 w (Suc (length (requests s))) = Inr listedAgain
    \<and> List.find (\<lambda>g. gp_title g = p_name p) listedAgain = None
    \<and> nodeId w (Suc (Suc (length (requests s)))) QueryOrganizationId = Inr owner
    \<and> createProjectV2 w (Suc (Suc (Suc (length (requests s))))) owner (p_name p)
         (p_description p) = Inr made
    \<longrightarrow> syncProject rt w False repo p s =
           andThen (updateProject w (p_id p)
                      \<lparr>pu_githubProjectId = Some (gp_id made),
                       pu_githubProjectUrl = Some (gp_url made),
                       pu_status = None\<rparr> False) (\<lambda>_.
           andThen (consoleLog (SyncedWithProject (gp_number made))) (\<lambda>_.
           syncActions rt w False p made repo))
             (s\<lparr>requests := requests s @ [QueryProjectsV2, QueryProjectsV2,
                  QueryOrganizationId,
                  MutationCreateProjectV2 owner (p_name p) (p_description p)],
                console := console s @ [LinkedProjectNotFound, CreatedProject (p_name p)]\<rparr>))
   \<and> updateProject w pageId pu False s =
       (mutation w (length (requests s))
          (PagesUpdate pageId
             (whenSet ''GitHub Project ID'' RichText (pu_githubProjectId pu)
              @ whenSet ''GitHub Project URL'' UrlValue (pu_githubProjectUrl pu)
              @ whenSet ''Status'' SelectName (pu_status pu)
              @ [(''Last Sync'', DateStart (clock w (length (requests s))))])),
        s\<lparr>requests := requests s @
             [PagesUpdate pageId
                (whenSet ''GitHub Project ID'' RichText (pu_githubProjectId pu)
                 @ whenSet ''GitHub Project URL'' UrlValue (pu_githubProjectUrl pu)
                 @ whenSet ''Status'' SelectName (pu_status pu)
                 @ [(''Last Sync'', DateStart (clock w (length (requests s))))])]\<rparr>)
   \<and> (projectsV2 w (length (requests s)) = Inr existing
    \<and> List.find (\<lambda>g. gp_title g = title) existing = Some found
    \<longrightarrow> getOrCreateProject w title description d s =
          (Inr found, s\<lparr>requests := requests s @ [QueryProjectsV2],
                        console := console s @ [FoundExistingProject title]\<rparr>))
   \<and> (projectsV2 w (length (requests s)) = Inr existing
    \<and> List.find (\<lambda>g. gp_title g = title) existing = None
    \<and> nodeId w (Suc (length (requests s))) QueryOrganizationId = Inr ownerId
    \<longrightarrow> getOrCreateProject w title description False s =
          (case createProjectV2 w (Suc (Suc (length (requests s)))) ownerId title description of
             Inl e \<Rightarrow>
               (Inl e, s\<lparr>requests := requests s @ [QueryProjectsV2, QueryOrganizationId,
                            MutationCreateProjectV2 ownerId title description]\<rparr>)
           | Inr created \<Rightarrow>
               (Inr created,
                s\<lparr>requests := requests s @ [QueryProjectsV2, QueryOrganizationId,
                            MutationCreateProjectV2 ownerId title description],
                  console := console s @ [CreatedProject title]\<rparr>)))
   \<and> (truthy (a_githubIssueId a)
    \<and> List.find (\<lambda>i. Some (gi_id i) = a_githubIssueId a) issues = None
    \<longrightarrow> syncAction rt w d gp repo issues a s =
          (Inr (), s\<lparr>console := console s @ [LinkedIssueNotFound (a_title a)]\<rparr>))"
  using syncProject_stale_link [of p w s allProjects rt d repo]
    syncProject_stale_as_unlinked [of p w s allProjects rt d repo]
    syncProject_unlinked [of p rt w d repo s]
    syncProject_stale_match [of p w s allProjects listedAgain matched rt d repo]
    syncProject_stale_create [of p w s allProjects listedAgain owner made rt repo]
    updateProject_live [of w pageId pu s]
    getOrCreateProject_match [of w s existing title found description d]
    getOrCreateProject_create [of w s existing title ownerId description]
    syncAction_stale_link [of a issues rt w d gp repo s]
  by blast

text \<open>
  The linked project against a GitHub without its board: the run creates a board and
  writes its id to the page, as for the unlinked project. Against a GitHub that has a
  board of the same title under another id: the run takes that board and writes its id
  to the page. The linked action against a project without its issue: one warning.
\<close>

theorem stale_link_handling_witness:
  "truthy (p_githubProjectId linkedLaunchPlan)
   \<and> projectsV2 quietWorld (length (requests initial)) = Inr []
   \<and> syncProject sampleRuntime quietWorld False ''site'' linkedLaunchPlan initial =
     syncProject sampleRuntime quietWorld False ''site''
       (linkedLaunchPlan\<lparr>p_githubProjectId := None\<rparr>)
       \<lparr>requests = [QueryProjectsV2], console = [LinkedProjectNotFound]\<rparr>
   \<and> syncProject sampleRuntime quietWorld False ''site'' linkedLaunchPlan initial =
       (Inr (),
        \<lparr>requests =
           [QueryProjectsV2, QueryProjectsV2, QueryOrganizationId,
            MutationCreateProjectV2 ''node-1'' ''Launch Plan'' (Some ''Q1 launch''),
            PagesUpdate ''page-1''
              [(''GitHub Project ID'', RichText ''PVT_9''),
               (''GitHub Project URL'', UrlValue ''https://github.com/orgs/acme/projects/9''),
               (''Last Sync'', DateStart ''2024-01-03T00:00:00.000Z'')],
            DatabasesQueryActions (Some ''page-1''), QueryProjectItems ''PVT_9''],
         console =
           [LinkedProjectNotFound, CreatedProject ''Launch Plan'', SyncedWithProject 9,
            SyncingActions ''Launch Plan'', FoundActions 0 0]\<rparr>)
   \<and> syncProject sampleRuntime rebuiltWorld False ''site'' linkedLaunchPlan initial =
       (Inr (),
        \<lparr>requests =
           [QueryProjectsV2, QueryProjectsV2,
            PagesUpdate ''page-1''
              [(''GitHub Project ID'', RichText ''PVT_2''),
               (''GitHub Project URL'', UrlValue ''https://github.com/orgs/acme/projects/2''),
               (''Last Sync'', DateStart ''2024-01-03T00:00:00.000Z'')],
            DatabasesQueryActions (Some ''page-1''), QueryProjectItems ''PVT_2''],
         console =
           [LinkedProjectNotFound, FoundExistingProject ''Launch Plan'', SyncedWithProject 2,
            SyncingActions ''Launch Plan'', FoundActions 0 0]\<rparr>)
   \<and> getOrCreateProject firstRunWorld ''Launch Plan'' None False initial =
       (Inr launchBoard,
        \<lparr>requests = [QueryProjectsV2], console = [FoundExistingProject ''Launch Plan'']\<rparr>)
   \<and> getOrCreateProject quietWorld ''Launch Plan'' None False initial =
       (Inr \<lparr>gp_id = ''PVT_9'', gp_number = 9, gp_title = ''Launch Plan'',
             gp_url = ''https://github.com/orgs/acme/projects/9'',
             gp_shortDescription = None, gp_updatedAt = ''2024-01-03T00:00:00.000Z''\<rparr>,
        \<lparr>requests = [QueryProjectsV2, QueryOrganizationId,
                     MutationCreateProjectV2 ''node-1'' ''Launch Plan'' None],
         console = [CreatedProject ''Launch Plan'']\<rparr>)
   \<and> syncAction sampleRuntime quietWorld True launchBoard ''site'' [] linkedWriteCopy initial =
       (Inr (), \<lparr>requests = [], console = [LinkedIssueNotFound ''Write copy'']\<rparr>)"
proof -
  let ?made = "\<lparr>gp_id = ''PVT_9'', gp_number = 9, gp_title = ''Launch Plan'',
             gp_url = ''https://github.com/orgs/acme/projects/9'',
             gp_shortDescription = Some ''Q1 launch'',
             gp_updatedAt = ''2024-01-03T00:00:00.000Z''\<rparr>"
  have h1: "truthy (p_githubProjectId linkedLaunchPlan)
    \<and> projectsV2 quietWorld (length (requests initial)) = Inr []
    \<and> List.find (\<lambda>g. Some (gp_id g) = p_githubProjectId linkedLaunchPlan) [] = None"
    by (simp add: sample_defs truthy_def)
  have h1': "projectsV2 quietWorld (Suc (length (requests initial))) = Inr []
    \<and> List.find (\<lambda>g. gp_title g = p_name linkedLaunchPlan) [] = None
    \<and> nodeId quietWorld (Suc (Suc (length (requests initial)))) QueryOrganizationId
        = Inr ''node-1''
    \<and> createProjectV2 quietWorld (Suc (Suc (Suc (length (requests initial))))) ''node-1''
         (p_name linkedLaunchPlan) (p_description linkedLaunchPlan) = Inr ?made"
    by (simp add: sample_defs)
  have h2: "projectsV2 firstRunWorld (length (requests initial)) = Inr [launchBoard]
    \<and> List.find (\<lambda>g. gp_title g = ''Launch Plan'') [launchBoard] = Some launchBoard"
    by (simp add: sample_defs)
  have h3: "projectsV2 quietWorld (length (requests initial)) = Inr []
    \<and> List.find (\<lambda>g. gp_title g = ''Launch Plan'') [] = None
    \<and> nodeId quietWorld (Suc (length (requests initial))) QueryOrganizationId = Inr ''node-1''"
    by (simp add: sample_defs)
  have h4: "truthy (a_githubIssueId linkedWriteCopy)
    \<and> List.find (\<lambda>i. Some (gi_id i) = a_githubIssueId linkedWriteCopy) [] = None"
    by (simp add: sample_defs truthy_def)
  have h5: "truthy (p_githubProjectId linkedLaunchPlan)
    \<and> projectsV2 rebuiltWorld (length (requests initial)) = Inr [rebuiltBoard]
    \<and> List.find (\<lambda>g. Some (gp_id g) = p_githubProjectId linkedLaunchPlan) [rebuiltBoard]
        = None
    \<and> projectsV2 rebuiltWorld (Suc (length (requests initial))) = Inr [rebuiltBoard]
    \<and> List.find (\<lambda>g. gp_title g = p_name linkedLaunchPlan) [rebuiltBoard]
        = Some rebuiltBoard"
    by (simp add: sample_defs truthy_def)
  from stale_link_handling [where p = linkedLaunchPlan and w = quietWorld and s = initial
      and allProjects = "[]" and rt = sampleRuntime and d = False and repo = "''site''"
      and listedAgain = "[]" and owner = "''node-1''" and made = ?made] h1 h1'
  have c1: "syncProject sampleRuntime quietWorld False ''site'' linkedLaunchPlan initial =
     syncProject sampleRuntime quietWorld False ''site''
       (linkedLaunchPlan\<lparr>p_githubProjectId := None\<rparr>)
       (initial\<lparr>requests := requests initial @ [QueryProjectsV2],
          console := console initial @ [LinkedProjectNotFound]\<rparr>)"
    and c5: "syncProject sampleRuntime quietWorld False ''site'' linkedLaunchPlan initial =
           andThen (updateProject quietWorld (p_id linkedLaunchPlan)
                      \<lparr>pu_githubProjectId = Some (gp_id ?made),
                       pu_githubProjectUrl = Some (gp_url ?made),
                       pu_status = None\<rparr> False) (\<lambda>_.
           andThen (consoleLog (SyncedWithProject (gp_number ?made))) (\<lambda>_.
           syncActions sampleRuntime quietWorld False linkedLaunchPlan ?made ''site''))
             (initial\<lparr>requests := requests initial @ [QueryProjectsV2, QueryProjectsV2,
                  QueryOrganizationId,
                  MutationCreateProjectV2 ''node-1'' (p_name linkedLaunchPlan)
                    (p_description linkedLaunchPlan)],
                console := console initial @ [LinkedProjectNotFound,
                  CreatedProject (p_name linkedLaunchPlan)]\<rparr>)"
    by blast+
  from stale_link_handling [where p = linkedLaunchPlan and w = rebuiltWorld and s = initial
      and allProjects = "[rebuiltBoard]" and rt = sampleRuntime and d = False
      and repo = "''site''" and listedAgain = "[rebuiltBoard]" and matched = rebuiltBoard] h5
  have c6: "syncProject sampleRuntime rebuiltWorld False ''site'' linkedLaunchPlan initial =
           andThen (updateProject rebuiltWorld (p_id linkedLaunchPlan)
                      \<lparr>pu_githubProjectId = Some (gp_id rebuiltBoard),
                       pu_githubProjectUrl = Some (gp_url rebuiltBoard),
                       pu_status = None\<rparr> False) (\<lambda>_.
           andThen (consoleLog (SyncedWithProject (gp_number rebuiltBoard))) (\<lambda>_.
           syncActions sampleRuntime rebuiltWorld False linkedLaunchPlan rebuiltBoard ''site''))
             (initial\<lparr>requests := requests initial @ [QueryProjectsV2, QueryProjectsV2],
                console := console initial @ [LinkedProjectNotFound,
                  FoundExistingProject (p_name linkedLaunchPlan)]\<rparr>)"
    by blast
  from stale_link_handling [where w = firstRunWorld and s = initial
      and existing = "[launchBoard]" and title = "''Launch Plan''" and found = launchBoard
      and description = None and d = False] h2
  have c2: "getOrCreateProject firstRunWorld ''Launch Plan'' None False initial =
       (Inr launchBoard, initial\<lparr>requests := requests initial @ [QueryProjectsV2],
          console := console initial @ [FoundExistingProject ''Launch Plan'']\<rparr>)"
    by blast
  from stale_link_handling [where w = quietWorld and s = initial
      and existing = "[]" and title = "''Launch Plan''" and ownerId = "''node-1''"
      and description = None] h3
  have c3: "getOrCreateProject quietWorld ''Launch Plan'' None False initial =
          (case createProjectV2 quietWorld (Suc (Suc (length (requests initial)))) ''node-1''
                  ''Launch Plan'' None of
             Inl e \<Rightarrow>
               (Inl e, initial\<lparr>requests := requests initial @ [QueryProjectsV2,
                  QueryOrganizationId, MutationCreateProjectV2 ''node-1'' ''Launch Plan'' None]\<rparr>)
           | Inr created \<Rightarrow>
               (Inr created,
                initial\<lparr>requests := requests initial @ [QueryProjectsV2, QueryOrganizationId,
                            MutationCreateProjectV2 ''node-1'' ''Launch Plan'' None],
                  console := console initial @ [CreatedProject ''Launch Plan'']\<rparr>))"
    by blast
  from stale_link_handling [where a = linkedWriteCopy and issues = "[]" and rt = sampleRuntime
      and w = quietWorld and d = True and gp = launchBoard and repo = "''site''"
      and s = initial] h4
  have c4: "syncAction sampleRuntime quietWorld True launchBoard ''site'' [] linkedWriteCopy
      initial =
        (Inr (), initial\<lparr>console := console initial @
           [LinkedIssueNotFound (a_title linkedWriteCopy)]\<rparr>)"
    by blast
  from c1 have c1': "syncProject sampleRuntime quietWorld False ''site'' linkedLaunchPlan initial =
     syncProject sampleRuntime quietWorld False ''site''
       (linkedLaunchPlan\<lparr>p_githubProjectId := None\<rparr>)
       \<lparr>requests = [QueryProjectsV2], console = [LinkedProjectNotFound]\<rparr>"
    by (simp add: initial_def)
  from c5 have c5': "syncProject sampleRuntime quietWorld False ''site'' linkedLaunchPlan initial =
       (Inr (),
        \<lparr>requests =
           [QueryProjectsV2, QueryProjectsV2, QueryOrganizationId,
            MutationCreateProjectV2 ''node-1'' ''Launch Plan'' (Some ''Q1 launch''),
            PagesUpdate ''page-1''
              [(''GitHub Project ID'', RichText ''PVT_9''),
               (''GitHub Project URL'', UrlValue ''https://github.com/orgs/acme/projects/9''),
               (''Last Sync'', DateStart ''2024-01-03T00:00:00.000Z'')],
            DatabasesQueryActions (Some ''page-1''), QueryProjectItems ''PVT_9''],
         console =
           [LinkedProjectNotFound, CreatedProject ''Launch Plan'', SyncedWithProject 9,
            SyncingActions ''Launch Plan'', FoundActions 0 0]\<rparr>)"
    by (simp add: io_defs client_defs syncActions_def syncActionsLoop_def sample_defs)
  from c6 have c6': "syncProject sampleRuntime rebuiltWorld False ''site'' linkedLaunchPlan
      initial =
       (Inr (),
        \<lparr>requests =
           [QueryProjectsV2, QueryProjectsV2,
            PagesUpdate ''page-1''
              [(''GitHub Project ID'', RichText ''PVT_2''),
               (''GitHub Project URL'', UrlValue ''https://github.com/orgs/acme/projects/2''),
               (''Last Sync'', DateStart ''2024-01-03T00:00:00.000Z'')],
            DatabasesQueryActions (Some ''page-1''), QueryProjectItems ''PVT_2''],
         console =
           [LinkedProjectNotFound, FoundExistingProject ''Launch Plan'', SyncedWithProject 2,
            SyncingActions ''Launch Plan'', FoundActions 0 0]\<rparr>)"
    by (simp add: io_defs client_defs syncActions_def syncActionsLoop_def sample_defs)
  from c2 have c2': "getOrCreateProject firstRunWorld ''Launch Plan'' None False initial =
       (Inr launchBoard,
        \<lparr>requests = [QueryProjectsV2], console = [FoundExistingProject ''Launch Plan'']\<rparr>)"
    by (simp add: initial_def)
  from c3 have c3': "getOrCreateProject quietWorld ''Launch Plan'' None False initial =
       (Inr \<lparr>gp_id = ''PVT_9'', gp_number = 9, gp_title = ''Launch Plan'',
             gp_url = ''https://github.com/orgs/acme/projects/9'',
             gp_shortDescription = None, gp_updatedAt = ''2024-01-03T00:00:00.000Z''\<rparr>,
        \<lparr>requests = [QueryProjectsV2, QueryOrganizationId,
                     MutationCreateProjectV2 ''node-1'' ''Launch Plan'' None],
         console = [CreatedProject ''Launch Plan'']\<rparr>)"
    by (simp add: initial_def quietWorld_def)
  from c4 have c4': "syncAction sampleRuntime quietWorld True launchBoard ''site'' []
      linkedWriteCopy initial =
       (Inr (), \<lparr>requests = [], console = [LinkedIssueNotFound ''Write copy'']\<rparr>)"
    by (simp add: initial_def linkedWriteCopy_def writeCopy_def)
  from h1 c1' c5' c6' c2' c3' c4' show ?thesis by simp
qed

subsection \<open>The end of a run\<close>

lemma syncProjects_listed:
  assumes "databasesQueryProjects w (length (requests s)) = Inr notionProjects"
  shows "syncProjects rt w d repo s =
           syncProjectsLoop rt w d repo notionProjects
             (s\<lparr>requests := requests s @ [DatabasesQueryProjects],
                console := console s @ [SyncingProjects,
                                        FoundNotionProjects (length notionProjects)]\<rparr>)"
  using assms by (simp add: syncProjects_def getProjects_def io_defs)

lemma run_completed:
  assumes "databasesQueryProjects w (length (requests s)) = Inr notionProjects"
  shows "run rt w d repo s =
           (Inr (),
            (snd (syncProjectsLoop rt w d repo notionProjects
                    (s\<lparr>requests := requests s @ [DatabasesQueryProjects],
                       console := console s @ [Banner, BannerRule, RunMode d, Repository repo,
                         SyncingProjects, FoundNotionProjects (length notionProjects)]\<rparr>)))
            \<lparr>console :=
               console (snd (syncProjectsLoop rt w d repo notionProjects
                    (s\<lparr>requests := requests s @ [DatabasesQueryProjects],
                       console := console s @ [Banner, BannerRule, RunMode d, Repository repo,
                         SyncingProjects, FoundNotionProjects (length notionProjects)]\<rparr>)))
               @ SyncCompleted # (if d then [DryRunHint] else [])\<rparr>)"
proof -
  let ?s = "s\<lparr>console := console s @ [Banner, BannerRule, RunMode d, Repository repo]\<rparr>"
  let ?t = "s\<lparr>requests := requests s @ [DatabasesQueryProjects],
              console := console s @ [Banner, BannerRule, RunMode d, Repository repo,
                SyncingProjects, FoundNotionProjects (length notionProjects)]\<rparr>"
  from assms have "databasesQueryProjects w (length (requests ?s)) = Inr notionProjects"
    by simp
  from syncProjects_listed [OF this, of rt d repo]
  have sp: "syncProjects rt w d repo ?s = syncProjectsLoop rt w d repo notionProjects ?t"
    by simp
  obtain r s' where loop: "syncProjectsLoop rt w d repo notionProjects ?t = (r, s')"
    by (cases "syncProjectsLoop rt w d repo notionProjects ?t")
  from syncProjectsLoop_result [of rt w d repo notionProjects ?t] loop have "r = Inr ()"
    by simp
  with sp loop show ?thesis
    by (simp add: run_def io_defs)
qed

lemma run_failed:
  assumes "databasesQueryProjects w (length (requests s)) = Inl e"
  shows "run rt w d repo s =
           (Inl e,
            s\<lparr>requests := requests s @ [DatabasesQueryProjects],
              console := console s @ [Banner, BannerRule, RunMode d, Repository repo,
                                      SyncingProjects, SyncFailed e]\<rparr>)"
  using assms by (simp add: run_def syncProjects_def getProjects_def io_defs)

lemma syncProjectsLoop_Nil: "syncProjectsLoop rt w d repo [] s = (Inr (), s)"
  by (simp add: syncProjectsLoop_def ok_def)





subsection \<open>What a sync of a linked pair sends\<close>

lemma andThen_fromResult_Inr: "andThen (fromResult (Inr x)) f = f x"
  by (simp add: andThen_def fromResult_def)

lemma andThen_consoleLog:
  "andThen (consoleLog l) f s = f () (s\<lparr>console := console s @ [l]\<rparr>)"
  by (simp add: andThen_def consoleLog_def)

lemma notionToGithubState_own:
  "map_of NOTION_TO_GITHUB_STATUS status = Some target
     \<Longrightarrow> notionToGithubState rt status = Known target"
  by (simp add: notionToGithubState_def)

lemma notionToGithubState_default:
  "map_of NOTION_TO_GITHUB_STATUS status = None \<and> status \<notin> set (Object_prototype rt)
     \<Longrightarrow> notionToGithubState rt status = Known OPEN"
  by (simp add: notionToGithubState_def)

lemma githubToNotionStatus_nonempty: "githubToNotionStatus st x \<noteq> []"
  by (cases st) (simp_all add: githubToNotionStatus_def GITHUB_TO_NOTION_STATUS_def)

lemma syncAction_notion_to_github:
  assumes "truthy (a_githubIssueId a)"
    and "List.find (\<lambda>i. Some (gi_id i) = a_githubIssueId a) issues = Some gi"
    and "determineSyncDirection rt (a_updatedAt a) (gi_updatedAt gi) (a_lastSyncAt a) = Inr st"
    and "direction st = NotionToGithub"
  shows "syncAction rt w d gp repo issues a s =
           andThen (updateIssue w (gi_id gi)
                      \<lparr>iu_title = Some (a_title a), iu_body = a_description a,
                       iu_state = Some (notionToGithubState rt (a_status a))\<rparr> d) (\<lambda>_.
           andThen (updateAction w (a_id a)
                      \<lparr>au_githubIssueId = None, au_githubIssueNumber = None,
                       au_githubIssueUrl = None, au_status = None\<rparr> d) (\<lambda>_.
           consoleLog (UpdatedIssue (gi_number gi))))
             (s\<lparr>console := console s @ [ActionDirection (a_title a) NotionToGithub]\<rparr>)"
  using assms by (simp add: syncAction_def andThen_fromResult_Inr andThen_consoleLog)

lemma syncAction_github_to_notion:
  assumes "truthy (a_githubIssueId a)"
    and "List.find (\<lambda>i. Some (gi_id i) = a_githubIssueId a) issues = Some gi"
    and "determineSyncDirection rt (a_updatedAt a) (gi_updatedAt gi) (a_lastSyncAt a) = Inr st"
    and "direction st = GithubToNotion"
  shows "syncAction rt w d gp repo issues a s =
           andThen (updateAction w (a_id a)
                      \<lparr>au_githubIssueId = None, au_githubIssueNumber = None,
                       au_githubIssueUrl = None,
                       au_status = Some (githubToNotionStatus (gi_state gi) (a_status a))\<rparr> d)
             (\<lambda>_. consoleLog UpdatedActionFromGitHub)
             (s\<lparr>console := console s @ [ActionDirection (a_title a) GithubToNotion]\<rparr>)"
  using assms by (simp add: syncAction_def andThen_fromResult_Inr andThen_consoleLog)

lemma syncAction_notion_to_github_requests:
  assumes "truthy (a_githubIssueId a)"
    and "List.find (\<lambda>i. Some (gi_id i) = a_githubIssueId a) issues = Some gi"
    and "determineSyncDirection rt (a_updatedAt a) (gi_updatedAt gi) (a_lastSyncAt a) = Inr st"
    and "direction st = NotionToGithub"
    and "notionToGithubState rt (a_status a) = Known target"
    and "\<forall>k r. mutation w k r = Inr ()"
  shows "requests (snd (syncAction rt w False gp repo issues a s)) =
           requests s
           @ [if target = CLOSED then MutationCloseIssue (gi_id gi)
              else MutationReopenIssue (gi_id gi)]
           @ (if a_title a \<noteq> [] \<or> truthy (a_description a)
              then [MutationUpdateIssue (gi_id gi) (Some (a_title a)) (a_description a)]
              else [])
           @ [PagesUpdate (a_id a)
                [(''Last Sync'',
                  DateStart (clock w (Suc (length (requests s))
                     + (if a_title a \<noteq> [] \<or> truthy (a_description a) then 1 else 0))))]]"
proof (cases target)
  case OPEN
  with assms(5,6) show ?thesis
    by (simp add: syncAction_notion_to_github [OF assms(1-4)] updateIssue_def updateAction_def
        whenSet_def io_defs truthy_def Let_def)
next
  case CLOSED
  with assms(5,6) show ?thesis
    by (simp add: syncAction_notion_to_github [OF assms(1-4)] updateIssue_def updateAction_def
        whenSet_def io_defs truthy_def Let_def)
qed

lemma syncAction_github_to_notion_requests:
  assumes "truthy (a_githubIssueId a)"
    and "List.find (\<lambda>i. Some (gi_id i) = a_githubIssueId a) issues = Some gi"
    and "determineSyncDirection rt (a_updatedAt a) (gi_updatedAt gi) (a_lastSyncAt a) = Inr st"
    and "direction st = GithubToNotion"
  shows "requests (snd (syncAction rt w False gp repo issues a s)) =
           requests s
           @ [PagesUpdate (a_id a)
                [(''Status'', SelectName (githubToNotionStatus (gi_state gi) (a_status a))),
                 (''Last Sync'', DateStart (clock w (length (requests s))))]]"
  by (simp add: syncAction_github_to_notion [OF assms] updateAction_def whenSet_def io_defs
      githubToNotionStatus_nonempty Let_def split: sum.splits)

lemma syncProject_linked:
  assumes "truthy (p_githubProjectId p)"
    and "projectsV2 w (length (requests s)) = Inr allProjects"
    and "List.find (\<lambda>g. Some (gp_id g) = p_githubProjectId p) allProjects = Some gp"
    and "determineSyncDirection rt (p_updatedAt p) (gp_updatedAt gp) (p_lastSyncAt p) = Inr st"
    and "direction st \<noteq> Conflict"
  shows "syncProject rt w d repo p s =
           andThen (updateProject w (p_id p)
                      \<lparr>pu_githubProjectId = Some (gp_id gp),
                       pu_githubProjectUrl = Some (gp_url gp), pu_status = None\<rparr> d) (\<lambda>_.
           andThen (consoleLog (SyncedWithProject (gp_number gp))) (\<lambda>_.
           syncActions rt w d p gp repo))
             (s\<lparr>requests := requests s @ [QueryProjectsV2],
                console := console s @ [SyncInfo (direction st) (reason st)]\<rparr>)"
proof -
  have "resolveGitHubProject rt w d p s =
          (Inr (Some gp), s\<lparr>requests := requests s @ [QueryProjectsV2],
                console := console s @ [SyncInfo (direction st) (reason st)]\<rparr>)"
    using assms by (simp add: resolveGitHubProject_def listProjects_def io_defs)
  then show ?thesis
    by (simp add: syncProject_def andThen_def [of "resolveGitHubProject rt w d p"])
qed

text \<open>
  \<^bold>\<open>C7\<close>, as stated, fails in two places. From GitHub to Notion only the status moves:
  the issue's title and body differ from the action's and are not sent. For a linked
  project nothing but the link moves: the Notion name differs from the board's title,
  the decision is Notion to GitHub, and the only write is the page's link and stamp.
\<close>

theorem propagation_counterexample:
  "gi_title issue7 = ''Write final copy'' \<and> a_title linkedWriteCopy = ''Write copy''
   \<and> syncAction sampleRuntime quietWorld False launchBoard ''site'' [issue7] linkedWriteCopy
       initial =
     (Inr (),
      \<lparr>requests =
         [PagesUpdate ''action-1''
            [(''Status'', SelectName ''Completed''),
             (''Last Sync'', DateStart ''2024-01-03T00:00:00.000Z'')]],
       console = [ActionDirection ''Write copy'' GithubToNotion, UpdatedActionFromGitHub]\<rparr>)
   \<and> p_name linkedLaunchPlan = ''Launch Plan'' \<and> gp_title staleBoard = ''Launch''
   \<and> syncProject sampleRuntime linkedWorld False ''site'' linkedLaunchPlan initial =
     (Inr (),
      \<lparr>requests =
         [QueryProjectsV2,
          PagesUpdate ''page-1''
            [(''GitHub Project ID'', RichText ''PVT_1''),
             (''GitHub Project URL'', UrlValue ''https://github.com/orgs/acme/projects/1''),
             (''Last Sync'', DateStart ''2024-01-03T00:00:00.000Z'')],
          DatabasesQueryActions (Some ''page-1''), QueryProjectItems ''PVT_1''],
       console =
         [SyncInfo NotionToGithub ''Notion updated at 2024-01-02T00:00:00.000Z'',
          SyncedWithProject 1, SyncingActions ''Launch Plan'', FoundActions 0 0]\<rparr>)"
  by (simp add: io_defs client_defs engine_defs sample_defs decision_defs
      githubToNotionStatus_def GITHUB_TO_NOTION_STATUS_def)

text \<open>
  \<^bold>\<open>C7\<close>, amended. For a linked action whose issue is found and whose decision is not a
  conflict: Notion to GitHub calls \<open>updateIssue\<close> with the action's title, its
  description as body and the value of the status table at its status, then
  \<open>updateAction\<close> with no field (the stamp alone); live, when the table's value is a
  state (the status is a key of the table, or names no member that objects inherit)
  and the mutations succeed, the requests are the close or reopen for that state, the
  update of title and body (unless both are empty) and the stamp. GitHub to Notion
  calls \<open>updateAction\<close> with the mapped status and no other field; live, the one
  request is the page's status and stamp. For a linked project that is found and not
  in conflict, in either direction, the one call is \<open>updateProject\<close> with the board's
  id and url, followed by the sync of its actions: name, description and status are
  not propagated.
\<close>

theorem propagation_of_linked_pairs:
  "(truthy (a_githubIssueId a)
    \<and> List.find (\<lambda>i. Some (gi_id i) = a_githubIssueId a) issues = Some gi
    \<and> determineSyncDirection rt (a_updatedAt a) (gi_updatedAt gi) (a_lastSyncAt a) = Inr st
    \<and> direction st = NotionToGithub
    \<longrightarrow> syncAction rt w d gp' repo issues a s =
           andThen (updateIssue w (gi_id gi)
                      \<lparr>iu_title = Some (a_title a), iu_body = a_description a,
                       iu_state = Some (notionToGithubState rt (a_status a))\<rparr> d) (\<lambda>_.
           andThen (updateAction w (a_id a)
                      \<lparr>au_githubIssueId = None, au_githubIssueNumber = None,
                       au_githubIssueUrl = None, au_status = None\<rparr> d) (\<lambda>_.
           consoleLog (UpdatedIssue (gi_number gi))))
             (s\<lparr>console := console s @ [ActionDirection (a_title a) NotionToGithub]\<rparr>)
        \<and> (notionToGithubState rt (a_status a) = Known target
           \<and> (\<forall>k r. mutation w k r = Inr ())
           \<longrightarrow> requests (snd (syncAction rt w False gp' repo issues a s)) =
           requests s
           @ [if target = CLOSED then MutationCloseIssue (gi_id gi)
              else MutationReopenIssue (gi_id gi)]
           @ (if a_title a \<noteq> [] \<or> truthy (a_description a)
              then [MutationUpdateIssue (gi_id gi) (Some (a_title a)) (a_description a)]
              else [])
           @ [PagesUpdate (a_id a)
                [(''Last Sync'',
                  DateStart (clock w (Suc (length (requests s))
                     + (if a_title a \<noteq> [] \<or> truthy (a_description a) then 1 else 0))))]]))
   \<and> (map_of NOTION_TO_GITHUB_STATUS status = Some target
      \<longrightarrow> notionToGithubState rt status = Known target)
   \<and> (map_of NOTION_TO_GITHUB_STATUS status = None \<and> status \<notin> set (Object_prototype rt)
      \<longrightarrow> notionToGithubState rt status = Known OPEN)
   \<and> (truthy (a_githubIssueId a)
    \<and> List.find (\<lambda>i. Some (gi_id i) = a_githubIssueId a) issues = Some gi
    \<and> determineSyncDirection rt (a_updatedAt a) (gi_updatedAt gi) (a_lastSyncAt a) = Inr st
    \<and> direction st = GithubToNotion
    \<longrightarrow> syncAction rt w d gp' repo issues a s =
           andThen (updateAction w (a_id a)
                      \<lparr>au_githubIssueId = None, au_githubIssueNumber = None,
                       au_githubIssueUrl = None,
                       au_status = Some (githubToNotionStatus (gi_state gi) (a_status a))\<rparr> d)
             (\<lambda>_. consoleLog UpdatedActionFromGitHub)
             (s\<lparr>console := console s @ [ActionDirection (a_title a) GithubToNotion]\<rparr>)
        \<and> requests (snd (syncAction rt w False gp' repo issues a s)) =
           requests s
           @ [PagesUpdate (a_id a)
                [(''Status'', SelectName (githubToNotionStatus (gi_state gi) (a_status a))),
                 (''Last Sync'', DateStart (clock w (length (requests s))))]])
   \<and> (truthy (p_githubProjectId p)
    \<and> projectsV2 w (length (requests s)) = Inr allProjects
    \<and> List.find (\<lambda>g. Some (gp_id g) = p_githubProjectId p) allProjects = Some gp
    \<and> determineSyncDirection rt (p_updatedAt p) (gp_updatedAt gp) (p_lastSyncAt p) = Inr st'
    \<and> direction st' \<noteq> Conflict
    \<longrightarrow> syncProject rt w d repo p s =
           andThen (updateProject w (p_id p)
                      \<lparr>pu_githubProjectId = Some (gp_id gp),
                       pu_githubProjectUrl = Some (gp_url gp), pu_status = None\<rparr> d) (\<lambda>_.
           andThen (consoleLog (SyncedWithProject (gp_number gp))) (\<lambda>_.
           syncActions rt w d p gp repo))
             (s\<lparr>requests := requests s @ [QueryProjectsV2],
                console := console s @ [SyncInfo (direction st') (reason st')]\<rparr>))"
  using syncAction_notion_to_github [of a issues gi rt st w d gp' repo s]
    syncAction_notion_to_github_requests [of a issues gi rt st target w gp' repo s]
    notionToGithubState_own [of status target rt]
    notionToGithubState_default [of status rt]
    syncAction_github_to_notion [of a issues gi rt st w d gp' repo s]
    syncAction_github_to_notion_requests [of a issues gi rt st w gp' repo s]
    syncProject_linked [of p w s allProjects gp rt st' d repo]
  by blast

text \<open>
  The linked action changed in Notion only, then in GitHub only, and the linked project
  changed in Notion only.
\<close>

theorem propagation_of_linked_pairs_witness:
  "map_of NOTION_TO_GITHUB_STATUS ''In Progress'' = Some OPEN
   \<and> determineSyncDirection sampleRuntime ''2024-01-03T00:00:00.000Z''
       ''2024-01-01T00:00:00.000Z'' (Some ''2024-01-02T00:00:00.000Z'') =
     Inr \<lparr>direction = NotionToGithub,
          reason = ''Notion updated at 2024-01-03T00:00:00.000Z''\<rparr>
   \<and> requests (snd (syncAction sampleRuntime quietWorld False launchBoard ''site''
        [issue7\<lparr>gi_updatedAt := ''2024-01-01T00:00:00.000Z''\<rparr>]
        (linkedWriteCopy\<lparr>a_updatedAt := ''2024-01-03T00:00:00.000Z''\<rparr>) initial)) =
       [MutationReopenIssue ''I_7'',
        MutationUpdateIssue ''I_7'' (Some ''Write copy'') (Some ''Draft the landing page''),
        PagesUpdate ''action-1'' [(''Last Sync'', DateStart ''2024-01-03T00:00:00.000Z'')]]
   \<and> determineSyncDirection sampleRuntime ''2024-01-01T00:00:00.000Z''
       ''2024-01-03T00:00:00.000Z'' (Some ''2024-01-02T00:00:00.000Z'') =
     Inr \<lparr>direction = GithubToNotion,
          reason = ''GitHub updated at 2024-01-03T00:00:00.000Z''\<rparr>
   \<and> requests (snd (syncAction sampleRuntime quietWorld False launchBoard ''site'' [issue7]
        linkedWriteCopy initial)) =
       [PagesUpdate ''action-1''
          [(''Status'', SelectName ''Completed''),
           (''Last Sync'', DateStart ''2024-01-03T00:00:00.000Z'')]]
   \<and> determineSyncDirection sampleRuntime ''2024-01-02T00:00:00.000Z''
       ''2024-01-01T00:00:00.000Z'' (Some ''2024-01-01T00:00:00.000Z'') =
     Inr \<lparr>direction = NotionToGithub,
          reason = ''Notion updated at 2024-01-02T00:00:00.000Z''\<rparr>
   \<and> syncProject sampleRuntime linkedWorld False ''site'' linkedLaunchPlan initial =
       andThen (updateProject linkedWorld ''page-1''
                  \<lparr>pu_githubProjectId = Some ''PVT_1'',
                   pu_githubProjectUrl = Some ''https://github.com/orgs/acme/projects/1'',
                   pu_status = None\<rparr> False) (\<lambda>_.
       andThen (consoleLog (SyncedWithProject 1)) (\<lambda>_.
       syncActions sampleRuntime linkedWorld False linkedLaunchPlan staleBoard ''site''))
         \<lparr>requests = [QueryProjectsV2],
          console = [SyncInfo NotionToGithub ''Notion updated at 2024-01-02T00:00:00.000Z'']\<rparr>"
proof -
  let ?a = "linkedWriteCopy\<lparr>a_updatedAt := ''2024-01-03T00:00:00.000Z''\<rparr>"
  let ?i = "issue7\<lparr>gi_updatedAt := ''2024-01-01T00:00:00.000Z''\<rparr>"
  let ?n2g = "\<lparr>direction = NotionToGithub,
          reason = ''Notion updated at 2024-01-03T00:00:00.000Z''\<rparr>"
  let ?g2n = "\<lparr>direction = GithubToNotion,
          reason = ''GitHub updated at 2024-01-03T00:00:00.000Z''\<rparr>"
  let ?pn2g = "\<lparr>direction = NotionToGithub,
          reason = ''Notion updated at 2024-01-02T00:00:00.000Z''\<rparr>"
  have d1: "determineSyncDirection sampleRuntime ''2024-01-03T00:00:00.000Z''
       ''2024-01-01T00:00:00.000Z'' (Some ''2024-01-02T00:00:00.000Z'') = Inr ?n2g"
    by (simp add: decision_defs)
  have d2: "determineSyncDirection sampleRuntime ''2024-01-01T00:00:00.000Z''
       ''2024-01-03T00:00:00.000Z'' (Some ''2024-01-02T00:00:00.000Z'') = Inr ?g2n"
    by (simp add: decision_defs)
  have d3: "determineSyncDirection sampleRuntime ''2024-01-02T00:00:00.000Z''
       ''2024-01-01T00:00:00.000Z'' (Some ''2024-01-01T00:00:00.000Z'') = Inr ?pn2g"
    by (simp add: decision_defs)
  have h1: "truthy (a_githubIssueId ?a)
    \<and> List.find (\<lambda>i. Some (gi_id i) = a_githubIssueId ?a) [?i] = Some ?i
    \<and> determineSyncDirection sampleRuntime (a_updatedAt ?a) (gi_updatedAt ?i) (a_lastSyncAt ?a)
        = Inr ?n2g
    \<and> direction ?n2g = NotionToGithub
    \<and> map_of NOTION_TO_GITHUB_STATUS (a_status ?a) = Some OPEN
    \<and> (\<forall>k r. mutation quietWorld k r = Inr ())"
    using d1 by (simp add: sample_defs truthy_def NOTION_TO_GITHUB_STATUS_def)
  have h2: "truthy (a_githubIssueId linkedWriteCopy)
    \<and> List.find (\<lambda>i. Some (gi_id i) = a_githubIssueId linkedWriteCopy) [issue7] = Some issue7
    \<and> determineSyncDirection sampleRuntime (a_updatedAt linkedWriteCopy) (gi_updatedAt issue7)
         (a_lastSyncAt linkedWriteCopy) = Inr ?g2n
    \<and> direction ?g2n = GithubToNotion"
    using d2 by (simp add: sample_defs truthy_def)
  have h3: "truthy (p_githubProjectId linkedLaunchPlan)
    \<and> projectsV2 linkedWorld (length (requests initial)) = Inr [staleBoard]
    \<and> List.find (\<lambda>g. Some (gp_id g) = p_githubProjectId linkedLaunchPlan) [staleBoard]
        = Some staleBoard
    \<and> determineSyncDirection sampleRuntime (p_updatedAt linkedLaunchPlan)
         (gp_updatedAt staleBoard) (p_lastSyncAt linkedLaunchPlan) = Inr ?pn2g
    \<and> direction ?pn2g \<noteq> Conflict"
    using d3 by (simp add: sample_defs truthy_def)
  from propagation_of_linked_pairs [where a = ?a and issues = "[?i]" and gi = ?i
      and rt = sampleRuntime and st = ?n2g and w = quietWorld and gp' = launchBoard
      and repo = "''site''" and s = initial and status = "a_status ?a" and target = OPEN] h1
  have c1: "requests (snd (syncAction sampleRuntime quietWorld False launchBoard ''site''
        [?i] ?a initial)) =
           requests initial
           @ [if OPEN = CLOSED then MutationCloseIssue (gi_id ?i)
              else MutationReopenIssue (gi_id ?i)]
           @ (if a_title ?a \<noteq> [] \<or> truthy (a_description ?a)
              then [MutationUpdateIssue (gi_id ?i) (Some (a_title ?a)) (a_description ?a)]
              else [])
           @ [PagesUpdate (a_id ?a)
                [(''Last Sync'',
                  DateStart (clock quietWorld (Suc (length (requests initial))
                     + (if a_title ?a \<noteq> [] \<or> truthy (a_description ?a) then 1 else 0))))]]"
    by blast
  from propagation_of_linked_pairs [where a = linkedWriteCopy and issues = "[issue7]"
      and gi = issue7 and rt = sampleRuntime and st = ?g2n and w = quietWorld
      and gp' = launchBoard and repo = "''site''" and s = initial] h2
  have c2: "requests (snd (syncAction sampleRuntime quietWorld False launchBoard ''site''
        [issue7] linkedWriteCopy initial)) =
           requests initial
           @ [PagesUpdate (a_id linkedWriteCopy)
                [(''Status'', SelectName (githubToNotionStatus (gi_state issue7)
                    (a_status linkedWriteCopy))),
                 (''Last Sync'', DateStart (clock quietWorld (length (requests initial))))]]"
    by blast
  from propagation_of_linked_pairs [where p = linkedLaunchPlan and w = linkedWorld
      and s = initial and allProjects = "[staleBoard]" and gp = staleBoard
      and rt = sampleRuntime and st' = ?pn2g and d = False and repo = "''site''"] h3
  have c3: "syncProject sampleRuntime linkedWorld False ''site'' linkedLaunchPlan initial =
           andThen (updateProject linkedWorld (p_id linkedLaunchPlan)
                      \<lparr>pu_githubProjectId = Some (gp_id staleBoard),
                       pu_githubProjectUrl = Some (gp_url staleBoard), pu_status = None\<rparr>
                      False) (\<lambda>_.
           andThen (consoleLog (SyncedWithProject (gp_number staleBoard))) (\<lambda>_.
           syncActions sampleRuntime linkedWorld False linkedLaunchPlan staleBoard ''site''))
             (initial\<lparr>requests := requests initial @ [QueryProjectsV2],
                console := console initial @ [SyncInfo (direction ?pn2g) (reason ?pn2g)]\<rparr>)"
    by blast
  from c1 have c1': "requests (snd (syncAction sampleRuntime quietWorld False launchBoard
        ''site'' [?i] ?a initial)) =
       [MutationReopenIssue ''I_7'',
        MutationUpdateIssue ''I_7'' (Some ''Write copy'') (Some ''Draft the landing page''),
        PagesUpdate ''action-1'' [(''Last Sync'', DateStart ''2024-01-03T00:00:00.000Z'')]]"
    by (simp add: sample_defs truthy_def)
  from c2 have c2': "requests (snd (syncAction sampleRuntime quietWorld False launchBoard
        ''site'' [issue7] linkedWriteCopy initial)) =
       [PagesUpdate ''action-1''
          [(''Status'', SelectName ''Completed''),
           (''Last Sync'', DateStart ''2024-01-03T00:00:00.000Z'')]]"
    by (simp add: sample_defs githubToNotionStatus_def GITHUB_TO_NOTION_STATUS_def)
  from c3 have c3': "syncProject sampleRuntime linkedWorld False ''site'' linkedLaunchPlan
        initial =
       andThen (updateProject linkedWorld ''page-1''
                  \<lparr>pu_githubProjectId = Some ''PVT_1'',
                   pu_githubProjectUrl = Some ''https://github.com/orgs/acme/projects/1'',
                   pu_status = None\<rparr> False) (\<lambda>_.
       andThen (consoleLog (SyncedWithProject 1)) (\<lambda>_.
       syncActions sampleRuntime linkedWorld False linkedLaunchPlan staleBoard ''site''))
         \<lparr>requests = [QueryProjectsV2],
          console = [SyncInfo NotionToGithub ''Notion updated at 2024-01-02T00:00:00.000Z'']\<rparr>"
    by (simp add: initial_def linkedLaunchPlan_def launchPlan_def staleBoard_def launchBoard_def)
  have own: "map_of NOTION_TO_GITHUB_STATUS ''In Progress'' = Some OPEN"
    by (simp add: NOTION_TO_GITHUB_STATUS_def)
  from own d1 c1' d2 c2' d3 c3' show ?thesis by simp
qed

end
